theory Spec2Isabelle
  imports Main "HOL-Library.Multiset"
begin

section \<open>Deployment records and the server actions over them\<close>

text \<open>
  A shallow embedding of \<^verbatim>\<open>src/server/actions/deployment-actions.ts\<close>: the
  server actions \<^verbatim>\<open>initiateDeployment\<close>, \<^verbatim>\<open>getUserDeployments\<close>,
  \<^verbatim>\<open>createDeployment\<close>, \<^verbatim>\<open>updateDeployment\<close>, \<^verbatim>\<open>deleteDeployment\<close> and
  \<^verbatim>\<open>initializeDemoDeployments\<close>.

  Every action is a function of an environment (what the ambient collaborators answer
  during that call: the session, the database handle, the clock, the outcome of each
  database statement) and of the world (the \<^verbatim>\<open>deployments\<close> table, the
  \<^verbatim>\<open>revalidatePath\<close> calls made so far, the console). It returns its result
  together with the new world. A thrown value is the \<open>Inl\<close> of the result.
\<close>

subsection \<open>Values\<close>

text \<open>
  What a \<^verbatim>\<open>catch\<close> clause can receive: an \<^verbatim>\<open>Error\<close> object with its message,
  or any other value (for which \<^verbatim>\<open>error instanceof Error\<close> is false).
\<close>

datatype thrown = Error string | NonError

type_synonym timestamp = int

text \<open>
  Modelled from the spec: the table \<^verbatim>\<open>deployments\<close> and the types
  \<^verbatim>\<open>Deployment\<close> and \<^verbatim>\<open>NewDeployment\<close> come from \<^verbatim>\<open>@/server/db/schema\<close>,
  which is not among the sources. The columns are those of the spec's DeploymentRecord
  (the owner column is \<^verbatim>\<open>userId\<close> in the code) and of the object literals in the
  actions; \<^verbatim>\<open>status\<close> is the string the code writes (\<^verbatim>\<open>"deploying"\<close>,
  \<^verbatim>\<open>"completed"\<close>, \<^verbatim>\<open>"failed"\<close>); a nullable column is an \<open>option\<close>.
  The column \<^verbatim>\<open>id\<close> is named \<open>id'\<close> here.
\<close>

record Deployment =
  id' :: string
  userId :: string
  projectName :: string
  description :: "string option"
  githubRepoUrl :: "string option"
  githubRepoName :: "string option"
  vercelProjectUrl :: "string option"
  vercelDeploymentUrl :: "string option"
  status :: string
  error :: "string option"
  createdAt :: timestamp
  updatedAt :: timestamp

text \<open>
  \<^verbatim>\<open>Omit<NewDeployment, "id" | "userId" | "createdAt" | "updatedAt">\<close>, the argument of
  \<^verbatim>\<open>createDeployment\<close> and (with the owner beside it) the element of the demo list.
  A column left out of the object is \<open>None\<close>: the database then stores NULL in a
  nullable column and the schema's default in \<^verbatim>\<open>status\<close>.
\<close>

record NewDeployment =
  new_projectName :: string
  new_description :: "string option"
  new_githubRepoUrl :: "string option"
  new_githubRepoName :: "string option"
  new_vercelProjectUrl :: "string option"
  new_vercelDeploymentUrl :: "string option"
  new_status :: "string option"
  new_error :: "string option"

text \<open>
  \<^verbatim>\<open>Partial<Omit<Deployment, "id" | "userId" | "createdAt">>\<close>, the patch of
  \<^verbatim>\<open>updateDeployment\<close>. \<open>None\<close> is a key that is absent (or \<^verbatim>\<open>undefined\<close>), which
  the \<^verbatim>\<open>set\<close> clause leaves alone; for a nullable column \<open>Some None\<close> writes NULL.
\<close>

record DeploymentPatch =
  set_projectName :: "string option"
  set_description :: "string option option"
  set_githubRepoUrl :: "string option option"
  set_githubRepoName :: "string option option"
  set_vercelProjectUrl :: "string option option"
  set_vercelDeploymentUrl :: "string option option"
  set_status :: "string option"
  set_error :: "string option option"
  set_updatedAt :: "timestamp option"

text \<open>The object \<^verbatim>\<open>validateProjectName\<close> returns, as \<^verbatim>\<open>initiateDeployment\<close> reads it.\<close>

record Validation =
  isValid :: bool
  validationError :: "string option"

text \<open>\<^verbatim>\<open>DeploymentResult\<close>, with the keys the object literals of \<^verbatim>\<open>initiateDeployment\<close> use.\<close>

record ResultData =
  githubRepo :: "string option"
  vercelProject :: "string option"

record DeploymentResult =
  success :: bool
  message :: "string option"
  resultError :: "string option"
  data :: "ResultData option"

text \<open>The argument object of \<^verbatim>\<open>deployPrivateRepository\<close>.\<close>

record DeployArgs =
  templateRepo :: string
  deployProjectName :: string
  deployDescription :: string
  deploymentId :: string

subsection \<open>Environment and world\<close>

datatype LogEntry = ConsoleLog string | ConsoleError string thrown

text \<open>
  The environment of one call.
  \<^item> \<open>session\<close>: the value of \<^verbatim>\<open>session?.user?.id\<close> after \<^verbatim>\<open>await auth()\<close>.
  \<^item> \<open>dbAvailable\<close>: whether \<^verbatim>\<open>db\<close> is truthy.
  \<^item> \<open>selectFault\<close>, \<open>insertFault\<close>, \<open>updateFault\<close>, \<open>deleteFault\<close>: the value the
    database statement of that kind throws during this call, if it throws.
  \<^item> \<open>insertReturnsRow\<close>: whether \<^verbatim>\<open>.returning()\<close> of the insert in
    \<^verbatim>\<open>createDeployment\<close> yields a row. When it yields none, no row was stored.
  \<^item> \<open>genId\<close>, \<open>now\<close>, \<open>defaultStatus\<close>: the schema's defaults (the id of the k-th row
    of an insert statement, the timestamp \<^verbatim>\<open>createdAt\<close> and \<^verbatim>\<open>updatedAt\<close> start at,
    the status of a row inserted without one); \<open>now\<close> is also \<^verbatim>\<open>new Date()\<close>.
  \<^item> \<open>shipkitRepo\<close>: the constant \<^verbatim>\<open>SHIPKIT_REPO\<close>, built from the site configuration.
\<close>

record Env =
  session :: "string option"
  dbAvailable :: bool
  selectFault :: "thrown option"
  insertFault :: "thrown option"
  insertReturnsRow :: bool
  updateFault :: "thrown option"
  deleteFault :: "thrown option"
  genId :: "nat \<Rightarrow> string"
  now :: timestamp
  defaultStatus :: string
  shipkitRepo :: string

record World =
  rows :: "Deployment list"
  revalidated :: "string list"
  console :: "LogEntry list"

definition logError :: "string \<Rightarrow> thrown \<Rightarrow> World \<Rightarrow> World" where
  "logError msg e w = w\<lparr>console := console w @ [ConsoleError msg e]\<rparr>"

definition logInfo :: "string \<Rightarrow> World \<Rightarrow> World" where
  "logInfo msg w = w\<lparr>console := console w @ [ConsoleLog msg]\<rparr>"

definition revalidatePath :: "string \<Rightarrow> World \<Rightarrow> World" where
  "revalidatePath p w = w\<lparr>revalidated := revalidated w @ [p]\<rparr>"

text \<open>
  The guard every action starts with, \<^verbatim>\<open>if (!session?.user?.id) throw new Error("Unauthorized")\<close>:
  the id passes when it is a non-empty string (the empty string is falsy).
\<close>

definition authUser :: "Env \<Rightarrow> string option" where
  "authUser env = (case session env of
      None \<Rightarrow> None
    | Some u \<Rightarrow> (if u = [] then None else Some u))"

text \<open>\<^verbatim>\<open>and(eq(deployments.id, id), eq(deployments.userId, session.user.id))\<close>\<close>

definition ownedBy :: "string \<Rightarrow> string \<Rightarrow> Deployment \<Rightarrow> bool" where
  "ownedBy i u r = (id' r = i \<and> userId r = u)"

text \<open>The row the database stores for the k-th value of an insert statement.\<close>

definition insertedRow :: "Env \<Rightarrow> nat \<Rightarrow> string \<Rightarrow> NewDeployment \<Rightarrow> Deployment" where
  "insertedRow env k u d =
     \<lparr> id' = genId env k,
       userId = u,
       projectName = new_projectName d,
       description = new_description d,
       githubRepoUrl = new_githubRepoUrl d,
       githubRepoName = new_githubRepoName d,
       vercelProjectUrl = new_vercelProjectUrl d,
       vercelDeploymentUrl = new_vercelDeploymentUrl d,
       status = (case new_status d of None \<Rightarrow> defaultStatus env | Some s \<Rightarrow> s),
       error = new_error d,
       createdAt = now env,
       updatedAt = now env \<rparr>"

fun insertedRows :: "Env \<Rightarrow> nat \<Rightarrow> string \<Rightarrow> NewDeployment list \<Rightarrow> Deployment list" where
  "insertedRows env k u [] = []"
| "insertedRows env k u (d # ds) = insertedRow env k u d # insertedRows env (Suc k) u ds"

text \<open>
  \<^verbatim>\<open>.set({ ...data, updatedAt: new Date() })\<close> on one row: a key of the patch that is
  present replaces the column, and \<^verbatim>\<open>updatedAt\<close> is the clock whatever the patch says.
\<close>

definition applyPatch :: "DeploymentPatch \<Rightarrow> timestamp \<Rightarrow> Deployment \<Rightarrow> Deployment" where
  "applyPatch p t r =
     r\<lparr> projectName := (case set_projectName p of None \<Rightarrow> projectName r | Some v \<Rightarrow> v),
        description := (case set_description p of None \<Rightarrow> description r | Some v \<Rightarrow> v),
        githubRepoUrl := (case set_githubRepoUrl p of None \<Rightarrow> githubRepoUrl r | Some v \<Rightarrow> v),
        githubRepoName := (case set_githubRepoName p of None \<Rightarrow> githubRepoName r | Some v \<Rightarrow> v),
        vercelProjectUrl :=
          (case set_vercelProjectUrl p of None \<Rightarrow> vercelProjectUrl r | Some v \<Rightarrow> v),
        vercelDeploymentUrl :=
          (case set_vercelDeploymentUrl p of None \<Rightarrow> vercelDeploymentUrl r | Some v \<Rightarrow> v),
        status := (case set_status p of None \<Rightarrow> status r | Some v \<Rightarrow> v),
        error := (case set_error p of None \<Rightarrow> error r | Some v \<Rightarrow> v),
        updatedAt := t \<rparr>"

subsection \<open>The store actions\<close>

text \<open>
  \<^verbatim>\<open>getUserDeployments\<close>: the rows of the session's user,
  \<^verbatim>\<open>orderBy(desc(deployments.createdAt))\<close>. The order among rows of equal
  \<^verbatim>\<open>createdAt\<close> is the database's choice; the model keeps the table's order there.
\<close>

definition getUserDeployments :: "Env \<Rightarrow> World \<Rightarrow> (thrown + Deployment list) \<times> World" where
  "getUserDeployments env w =
     (case authUser env of
        None \<Rightarrow> (Inl (Error ''Unauthorized''), w)
      | Some u \<Rightarrow>
          if \<not> dbAvailable env then (Inl (Error ''Database not available''), w)
          else (case selectFault env of
              Some e \<Rightarrow>
                (Inl (Error ''Failed to fetch deployments''),
                 logError ''Failed to fetch deployments:'' e w)
            | None \<Rightarrow>
                (Inr (sort_key (\<lambda>r. - createdAt r) (filter (\<lambda>r. userId r = u) (rows w))), w)))"

text \<open>
  \<^verbatim>\<open>createDeployment\<close>: one row inserted in a transaction, then
  \<^verbatim>\<open>revalidatePath("/deployments")\<close>, then the check that a row came back. Whatever is
  thrown inside the \<^verbatim>\<open>try\<close> is logged and replaced by
  \<^verbatim>\<open>Error("Failed to create deployment")\<close>.
\<close>

definition createDeployment :: "Env \<Rightarrow> NewDeployment \<Rightarrow> World \<Rightarrow> (thrown + Deployment) \<times> World" where
  "createDeployment env d w =
     (case authUser env of
        None \<Rightarrow> (Inl (Error ''Unauthorized''), w)
      | Some u \<Rightarrow>
          if \<not> dbAvailable env then (Inl (Error ''Database not available''), w)
          else (case insertFault env of
              Some e \<Rightarrow>
                (Inl (Error ''Failed to create deployment''),
                 logError ''Failed to create deployment:'' e w)
            | None \<Rightarrow>
                if insertReturnsRow env then
                  (Inr (insertedRow env 0 u d),
                   revalidatePath ''/deployments''
                     (w\<lparr>rows := rows w @ [insertedRow env 0 u d]\<rparr>))
                else
                  (Inl (Error ''Failed to create deployment''),
                   logError ''Failed to create deployment:''
                     (Error ''Failed to create deployment: no result returned'')
                     (revalidatePath ''/deployments'' w))))"

text \<open>
  \<^verbatim>\<open>updateDeployment\<close>: the patch is applied to the rows with this id and this owner;
  \<^verbatim>\<open>.returning()\<close> gives the updated rows and the action returns the first, or
  \<^verbatim>\<open>null\<close> when there is none; the path is revalidated only when a row came back.
\<close>

definition updateDeployment ::
  "Env \<Rightarrow> string \<Rightarrow> DeploymentPatch \<Rightarrow> World \<Rightarrow> (thrown + Deployment option) \<times> World" where
  "updateDeployment env i p w =
     (case authUser env of
        None \<Rightarrow> (Inl (Error ''Unauthorized''), w)
      | Some u \<Rightarrow>
          if \<not> dbAvailable env then (Inl (Error ''Database not available''), w)
          else (case updateFault env of
              Some e \<Rightarrow>
                (Inl (Error ''Failed to update deployment''),
                 logError ''Failed to update deployment:'' e w)
            | None \<Rightarrow>
                (case map (applyPatch p (now env)) (filter (ownedBy i u) (rows w)) of
                   [] \<Rightarrow> (Inr None, w)
                 | r # _ \<Rightarrow>
                     (Inr (Some r),
                      revalidatePath ''/deployments''
                        (w\<lparr>rows := map (\<lambda>x. if ownedBy i u x then applyPatch p (now env) x else x)
                                      (rows w)\<rparr>)))))"

text \<open>
  \<^verbatim>\<open>deleteDeployment\<close>: the rows with this id and this owner are deleted; the
  statement's result is not looked at, the path is revalidated and \<^verbatim>\<open>true\<close> returned.
\<close>

definition deleteDeployment :: "Env \<Rightarrow> string \<Rightarrow> World \<Rightarrow> (thrown + bool) \<times> World" where
  "deleteDeployment env i w =
     (case authUser env of
        None \<Rightarrow> (Inl (Error ''Unauthorized''), w)
      | Some u \<Rightarrow>
          if \<not> dbAvailable env then (Inl (Error ''Database not available''), w)
          else (case deleteFault env of
              Some e \<Rightarrow>
                (Inl (Error ''Failed to delete deployment''),
                 logError ''Failed to delete deployment:'' e w)
            | None \<Rightarrow>
                (Inr True,
                 revalidatePath ''/deployments''
                   (w\<lparr>rows := filter (\<lambda>r. \<not> ownedBy i u r) (rows w)\<rparr>))))"

subsection \<open>The demo seeder\<close>

definition demoDeployments :: "NewDeployment list" where
  "demoDeployments =
     [ \<lparr> new_projectName = ''my-shipkit-app'',
         new_description = Some ''Production deployment'',
         new_githubRepoUrl = Some ''https://github.com/demo/my-shipkit-app'',
         new_githubRepoName = Some ''demo/my-shipkit-app'',
         new_vercelProjectUrl = Some ''https://vercel.com/demo/my-shipkit-app'',
         new_vercelDeploymentUrl = Some ''https://my-shipkit-app.vercel.app'',
         new_status = Some ''completed'',
         new_error = None \<rparr>,
       \<lparr> new_projectName = ''shipkit-staging'',
         new_description = Some ''Staging environment'',
         new_githubRepoUrl = Some ''https://github.com/demo/shipkit-staging'',
         new_githubRepoName = Some ''demo/shipkit-staging'',
         new_vercelProjectUrl = Some ''https://vercel.com/demo/shipkit-staging'',
         new_vercelDeploymentUrl = Some ''https://shipkit-staging.vercel.app'',
         new_status = Some ''completed'',
         new_error = None \<rparr>,
       \<lparr> new_projectName = ''shipkit-dev'',
         new_description = Some ''Development environment'',
         new_githubRepoUrl = None,
         new_githubRepoName = None,
         new_vercelProjectUrl = None,
         new_vercelDeploymentUrl = None,
         new_status = Some ''failed'',
         new_error = Some ''Build failed: Module not found'' \<rparr> ]"

text \<open>
  \<^verbatim>\<open>initializeDemoDeployments\<close>: \<^verbatim>\<open>select ... limit(1)\<close> for the user's rows; when
  there is none, one insert statement with the three demo rows. Whatever the two
  statements throw is logged and not thrown again; no path is revalidated.
\<close>

definition initializeDemoDeployments :: "Env \<Rightarrow> World \<Rightarrow> (thrown + unit) \<times> World" where
  "initializeDemoDeployments env w =
     (case authUser env of
        None \<Rightarrow> (Inl (Error ''Unauthorized''), w)
      | Some u \<Rightarrow>
          if \<not> dbAvailable env then (Inl (Error ''Database not available''), w)
          else (case selectFault env of
              Some e \<Rightarrow> (Inr (), logError ''Failed to initialize demo deployments:'' e w)
            | None \<Rightarrow>
                if length (take 1 (filter (\<lambda>r. userId r = u) (rows w))) > 0 then (Inr (), w)
                else (case insertFault env of
                    Some e \<Rightarrow> (Inr (), logError ''Failed to initialize demo deployments:'' e w)
                  | None \<Rightarrow>
                      (Inr (), w\<lparr>rows := rows w @ insertedRows env 0 u demoDeployments\<rparr>))))"

subsection \<open>Initiating a deployment\<close>

text \<open>
  \<^verbatim>\<open>String.prototype.trim\<close>: leading and trailing WhiteSpace and LineTerminator code
  points go. A character of a HOL string is one of the 256 code units U+0000 to U+00FF;
  the code points of the two classes in that range are tab, line feed, vertical tab, form
  feed, carriage return, space and the no-break space U+00A0. The others (U+1680,
  U+2000 to U+200A, U+2028, U+2029, U+202F, U+205F, U+3000, U+FEFF) lie above U+00FF
  and no HOL string contains them.
\<close>

definition isSpace :: "char \<Rightarrow> bool" where
  "isSpace c =
     (c \<in> set [CHR 0x09, CHR 0x0A, CHR 0x0B, CHR 0x0C, CHR 0x0D, CHR 0x20, CHR 0xA0])"

definition trim :: "string \<Rightarrow> string" where
  "trim s = rev (dropWhile isSpace (rev (dropWhile isSpace s)))"

text \<open>\<^verbatim>\<open>error instanceof Error ? error.message : fallback\<close>\<close>

definition messageOr :: "string \<Rightarrow> thrown \<Rightarrow> string" where
  "messageOr fallback e = (case e of Error m \<Rightarrow> m | NonError \<Rightarrow> fallback)"

definition deployingRecord :: "string \<Rightarrow> NewDeployment" where
  "deployingRecord name =
     \<lparr> new_projectName = name,
       new_description = Some (''Deployment of '' @ name),
       new_githubRepoUrl = None,
       new_githubRepoName = None,
       new_vercelProjectUrl = None,
       new_vercelDeploymentUrl = None,
       new_status = Some ''deploying'',
       new_error = None \<rparr>"

definition initiatedResult :: DeploymentResult where
  "initiatedResult =
     \<lparr> success = True,
       message = Some ''Deployment initiated successfully! You can monitor the progress on this page.'',
       resultError = None,
       data = Some \<lparr> githubRepo = None, vercelProject = None \<rparr> \<rparr>"

definition failedResult :: "string option \<Rightarrow> DeploymentResult" where
  "failedResult e = \<lparr> success = False, message = None, resultError = e, data = None \<rparr>"

text \<open>
  \<^verbatim>\<open>initiateDeployment\<close>. The validator \<^verbatim>\<open>validateProjectName\<close> is imported from
  \<^verbatim>\<open>@/lib/schemas/deployment\<close>, which is not among the sources: it is the parameter
  \<open>validate\<close>. The argument \<open>raw\<close> is \<^verbatim>\<open>formData.get("projectName")\<close>, \<open>None\<close> when
  the form has no such field; on a name the validator accepts, \<^verbatim>\<open>projectName.trim()\<close>
  of \<^verbatim>\<open>null\<close> is a TypeError (an \<^verbatim>\<open>Error\<close>, with the message of the V8 engine)
  thrown outside the \<^verbatim>\<open>try\<close>.

  The third component of the result is the background task the action has started when
  it returns: the arguments the anonymous async function passes to
  \<^verbatim>\<open>deployPrivateRepository\<close>, or \<open>None\<close> when no task was started. The task's
  own steps are \<open>backgroundDeployment\<close> below and run after the action has returned.
\<close>

definition initiateDeployment ::
  "(string option \<Rightarrow> Validation) \<Rightarrow> Env \<Rightarrow> string option \<Rightarrow> World
     \<Rightarrow> (thrown + DeploymentResult) \<times> World \<times> DeployArgs option" where
  "initiateDeployment validate env raw w =
     (if \<not> isValid (validate raw) then
        (Inr (failedResult (validationError (validate raw))), w, None)
      else (case raw of
          None \<Rightarrow>
            (Inl (Error ''Cannot read properties of null (reading 'trim')''), w, None)
        | Some name \<Rightarrow>
            (case createDeployment env (deployingRecord (trim name)) w of
               (Inr newDeployment, w') \<Rightarrow>
                 (Inr initiatedResult, w',
                  Some \<lparr> templateRepo = shipkitRepo env,
                         deployProjectName = trim name,
                         deployDescription = ''Deployment of '' @ trim name,
                         deploymentId = id' newDeployment \<rparr>)
             | (Inl e, w') \<Rightarrow>
                 (Inr (failedResult (Some (messageOr ''Failed to create deployment record'' e))),
                  logError (''Failed to create deployment record for '' @ trim name @ '':'')
                    e w',
                  None))))"

text \<open>
  The patch of the reconciling update,
  \<^verbatim>\<open>{ status: "failed", error: error instanceof Error ? error.message : "An unknown error occurred" }\<close>.
\<close>

definition failedPatch :: "thrown \<Rightarrow> DeploymentPatch" where
  "failedPatch e =
     \<lparr> set_projectName = None, set_description = None, set_githubRepoUrl = None,
       set_githubRepoName = None, set_vercelProjectUrl = None, set_vercelDeploymentUrl = None,
       set_status = Some ''failed'',
       set_error = Some (Some (messageOr ''An unknown error occurred'' e)),
       set_updatedAt = None \<rparr>"

text \<open>
  The anonymous async function \<^verbatim>\<open>initiateDeployment\<close> starts and does not await.
  \<^verbatim>\<open>deployPrivateRepository\<close> is not among the sources: \<open>deploy\<close> is what it does to
  the world and whether it throws. \<open>env\<close> is the environment at the time the task
  reconciles the record. The result is what the task's promise settles to.
\<close>

definition backgroundDeployment ::
  "(DeployArgs \<Rightarrow> World \<Rightarrow> (thrown + unit) \<times> World) \<Rightarrow> Env \<Rightarrow> DeployArgs \<Rightarrow> World
     \<Rightarrow> (thrown + unit) \<times> World" where
  "backgroundDeployment deploy env args w =
     (case deploy args w of
        (Inr _, w1) \<Rightarrow>
          (Inr (), logInfo (''Deployment process completed for '' @ deployProjectName args) w1)
      | (Inl e, w1) \<Rightarrow>
          (case updateDeployment env (deploymentId args) (failedPatch e)
                  (logError (''Deployment failed for '' @ deployProjectName args @ '':'') e w1) of
             (Inr _, w2) \<Rightarrow> (Inr (), w2)
           | (Inl updateError, w2) \<Rightarrow>
               (Inr (),
                logError (''Failed to update deployment status for '' @ deployProjectName args
                            @ '':'')
                  updateError w2)))"


subsection \<open>Sample inputs\<close>

text \<open>
  Concrete environments, worlds and collaborators at which the theorems below are
  instantiated. \<open>paddedName\<close> is \<^verbatim>\<open>"my-app"\<close> between a no-break space and a space
  in front and a tab and a no-break space behind. \<open>nonEmptyName\<close> is one possible validator (it accepts every name that
  is not blank), \<open>buildFails\<close> one possible deployment job (it throws at once).
\<close>

definition nonEmptyName :: "string option \<Rightarrow> Validation" where
  "nonEmptyName raw =
     (case raw of
        None \<Rightarrow> \<lparr> isValid = False, validationError = Some ''Project name is required'' \<rparr>
      | Some s \<Rightarrow>
          if trim s = [] then
            \<lparr> isValid = False, validationError = Some ''Project name is required'' \<rparr>
          else \<lparr> isValid = True, validationError = None \<rparr>)"

definition aliceEnv :: Env where
  "aliceEnv =
     \<lparr> session = Some ''alice'', dbAvailable = True, selectFault = None, insertFault = None,
       insertReturnsRow = True, updateFault = None, deleteFault = None,
       genId = (\<lambda>k. ''dep-'' @ replicate (Suc k) (CHR ''x'')), now = 1000,
       defaultStatus = ''pending'', shipkitRepo = ''shipkit/shipkit'' \<rparr>"

definition faultyInsertEnv :: Env where
  "faultyInsertEnv = aliceEnv\<lparr>insertFault := Some (Error ''connection lost'')\<rparr>"

definition faultySelectEnv :: Env where
  "faultySelectEnv = aliceEnv\<lparr>selectFault := Some (Error ''connection lost'')\<rparr>"

definition faultyUpdateEnv :: Env where
  "faultyUpdateEnv = aliceEnv\<lparr>updateFault := Some (Error ''connection lost'')\<rparr>"

definition emptyWorld :: World where
  "emptyWorld = \<lparr> rows = [], revalidated = [], console = [] \<rparr>"

definition emptyPatch :: DeploymentPatch where
  "emptyPatch =
     \<lparr> set_projectName = None, set_description = None, set_githubRepoUrl = None,
       set_githubRepoName = None, set_vercelProjectUrl = None, set_vercelDeploymentUrl = None,
       set_status = None, set_error = None, set_updatedAt = None \<rparr>"

definition alicesDeployment :: Deployment where
  "alicesDeployment =
     \<lparr> id' = ''dep-a'', userId = ''alice'', projectName = ''my-app'',
       description = Some ''Deployment of my-app'', githubRepoUrl = None, githubRepoName = None,
       vercelProjectUrl = None, vercelDeploymentUrl = Some ''https://my-app.vercel.app'',
       status = ''completed'', error = None, createdAt = 10, updatedAt = 15 \<rparr>"

definition bobsDeployment :: Deployment where
  "bobsDeployment =
     \<lparr> id' = ''dep-b'', userId = ''bob'', projectName = ''bobs-app'',
       description = None, githubRepoUrl = None, githubRepoName = None,
       vercelProjectUrl = None, vercelDeploymentUrl = None,
       status = ''deploying'', error = None, createdAt = 20, updatedAt = 20 \<rparr>"

definition alicesLater :: Deployment where
  "alicesLater =
     \<lparr> id' = ''dep-c'', userId = ''alice'', projectName = ''other-app'',
       description = None, githubRepoUrl = None, githubRepoName = None,
       vercelProjectUrl = None, vercelDeploymentUrl = None,
       status = ''failed'', error = Some ''Build failed'', createdAt = 30, updatedAt = 40 \<rparr>"

definition sharedWorld :: World where
  "sharedWorld =
     \<lparr> rows = [alicesDeployment, bobsDeployment, alicesLater], revalidated = [], console = [] \<rparr>"

definition buildFails :: "DeployArgs \<Rightarrow> World \<Rightarrow> (thrown + unit) \<times> World" where
  "buildFails args w = (Inl (Error ''Build failed''), w)"

definition paddedName :: string where
  "paddedName = CHR 0xA0 # '' my-app'' @ [CHR 0x09, CHR 0xA0]"

definition laterEnv :: Env where
  "laterEnv = aliceEnv\<lparr>now := 2000\<rparr>"

definition myAppRow :: Deployment where
  "myAppRow =
     \<lparr> id' = ''dep-x'', userId = ''alice'', projectName = ''my-app'',
       description = Some ''Deployment of my-app'', githubRepoUrl = None, githubRepoName = None,
       vercelProjectUrl = None, vercelDeploymentUrl = None,
       status = ''deploying'', error = None, createdAt = 1000, updatedAt = 1000 \<rparr>"

definition myAppWorld :: World where
  "myAppWorld = \<lparr> rows = [myAppRow], revalidated = [''/deployments''], console = [] \<rparr>"

definition myAppArgs :: DeployArgs where
  "myAppArgs =
     \<lparr> templateRepo = ''shipkit/shipkit'', deployProjectName = ''my-app'',
       deployDescription = ''Deployment of my-app'', deploymentId = ''dep-x'' \<rparr>"

definition revertPatch :: DeploymentPatch where
  "revertPatch = emptyPatch\<lparr>set_status := Some ''deploying''\<rparr>"

definition failOnlyPatch :: DeploymentPatch where
  "failOnlyPatch = emptyPatch\<lparr>set_status := Some ''failed''\<rparr>"

section \<open>Properties of the actions\<close>

subsection \<open>Auxiliary facts\<close>

lemma applyPatch_fixed [simp]:
  "id' (applyPatch p t r) = id' r" "userId (applyPatch p t r) = userId r"
  "createdAt (applyPatch p t r) = createdAt r" "updatedAt (applyPatch p t r) = t"
  by (simp_all add: applyPatch_def)

lemma ownedBy_applyPatch [simp]: "ownedBy i u (applyPatch p t r) = ownedBy i u r"
  by (simp add: ownedBy_def)

lemma applyPatch_fields:
  "projectName (applyPatch p t r) = (case set_projectName p of None \<Rightarrow> projectName r | Some v \<Rightarrow> v)"
  "description (applyPatch p t r) = (case set_description p of None \<Rightarrow> description r | Some v \<Rightarrow> v)"
  "githubRepoUrl (applyPatch p t r) = (case set_githubRepoUrl p of None \<Rightarrow> githubRepoUrl r | Some v \<Rightarrow> v)"
  "githubRepoName (applyPatch p t r) = (case set_githubRepoName p of None \<Rightarrow> githubRepoName r | Some v \<Rightarrow> v)"
  "vercelProjectUrl (applyPatch p t r) = (case set_vercelProjectUrl p of None \<Rightarrow> vercelProjectUrl r | Some v \<Rightarrow> v)"
  "vercelDeploymentUrl (applyPatch p t r) = (case set_vercelDeploymentUrl p of None \<Rightarrow> vercelDeploymentUrl r | Some v \<Rightarrow> v)"
  "status (applyPatch p t r) = (case set_status p of None \<Rightarrow> status r | Some v \<Rightarrow> v)"
  "error (applyPatch p t r) = (case set_error p of None \<Rightarrow> error r | Some v \<Rightarrow> v)"
  by (simp_all add: applyPatch_def)

lemma map_if_filter_Nil:
  "filter P xs = [] \<Longrightarrow> map (\<lambda>x. if P x then f x else x) xs = xs"
  by (induction xs) (auto split: if_splits)

lemma find_filter_Cons:
  "filter P xs = r # rs \<Longrightarrow> List.find P xs = Some r"
  by (induction xs) (auto split: if_splits)

lemma logError_rows [simp]: "rows (logError m e w) = rows w"
  by (simp add: logError_def)

lemma logInfo_rows [simp]: "rows (logInfo m w) = rows w"
  by (simp add: logInfo_def)

lemma revalidatePath_rows [simp]: "rows (revalidatePath p w) = rows w"
  by (simp add: revalidatePath_def)

lemma updateDeployment_rows:
  assumes "authUser env = Some u" "dbAvailable env" "updateFault env = None"
  shows "rows (snd (updateDeployment env i p w)) =
           map (\<lambda>x. if ownedBy i u x then applyPatch p (now env) x else x) (rows w)"
proof (cases "filter (ownedBy i u) (rows w)")
  case Nil
  then show ?thesis using assms
    by (simp add: updateDeployment_def map_if_filter_Nil)
next
  case (Cons r rs)
  then show ?thesis using assms
    by (simp add: updateDeployment_def revalidatePath_def)
qed

lemma updateDeployment_unchanged:
  assumes "authUser env = None \<or> \<not> dbAvailable env \<or> updateFault env \<noteq> None"
  shows "rows (snd (updateDeployment env i p w)) = rows w"
  using assms
  by (auto simp: updateDeployment_def logError_def split: option.splits)

lemma updateDeployment_result:
  assumes "authUser env = Some u" "dbAvailable env" "updateFault env = None"
  shows "fst (updateDeployment env i p w) =
           Inr (map_option (applyPatch p (now env)) (List.find (ownedBy i u) (rows w)))"
proof (cases "filter (ownedBy i u) (rows w)")
  case Nil
  then have "List.find (ownedBy i u) (rows w) = None"
    by (simp add: find_None_iff filter_empty_conv)
  with Nil show ?thesis using assms by (simp add: updateDeployment_def)
next
  case (Cons r rs)
  then have "List.find (ownedBy i u) (rows w) = Some r"
    by (rule find_filter_Cons)
  with Cons show ?thesis using assms by (simp add: updateDeployment_def)
qed

lemma updateDeployment_not_found:
  assumes "authUser env = Some u" "dbAvailable env" "updateFault env = None"
      and "\<forall>r\<in>set (rows w). id' r \<noteq> i \<or> userId r \<noteq> u"
  shows "updateDeployment env i p w = (Inr None, w)"
proof -
  have "filter (ownedBy i u) (rows w) = []"
    using assms(4) by (auto simp: filter_empty_conv ownedBy_def)
  then show ?thesis using assms(1-3) by (simp add: updateDeployment_def)
qed

lemma updateDeployment_throws:
  assumes "authUser env = None \<or> \<not> dbAvailable env \<or> updateFault env \<noteq> None"
  shows "\<exists>t. fst (updateDeployment env i p w) = Inl t
           \<and> rows (snd (updateDeployment env i p w)) = rows w
           \<and> set (console w) \<subseteq> set (console (snd (updateDeployment env i p w)))"
  using assms
  by (auto simp: updateDeployment_def logError_def split: option.splits)

lemma updateDeployment_rows_map:
  "\<exists>f. rows (snd (updateDeployment env i p w)) = map f (rows w)
       \<and> (\<forall>r. f r = r \<or> (id' r = i \<and> f r = applyPatch p (now env) r))"
proof (cases "authUser env = None \<or> \<not> dbAvailable env \<or> updateFault env \<noteq> None")
  case True
  then have "rows (snd (updateDeployment env i p w)) = map (\<lambda>r. r) (rows w)"
    by (simp add: updateDeployment_unchanged)
  then show ?thesis by blast
next
  case False
  then obtain u where u: "authUser env = Some u" "dbAvailable env" "updateFault env = None"
    by auto
  let ?f = "\<lambda>x. if ownedBy i u x then applyPatch p (now env) x else x"
  have "rows (snd (updateDeployment env i p w)) = map ?f (rows w)"
    by (rule updateDeployment_rows [OF u])
  moreover have "\<forall>r. ?f r = r \<or> (id' r = i \<and> ?f r = applyPatch p (now env) r)"
    by (simp add: ownedBy_def)
  ultimately show ?thesis by blast
qed

lemma createDeployment_ok:
  assumes "authUser env = Some u" "dbAvailable env" "insertFault env = None" "insertReturnsRow env"
  shows "createDeployment env d w =
           (Inr (insertedRow env 0 u d),
            revalidatePath ''/deployments'' (w\<lparr>rows := rows w @ [insertedRow env 0 u d]\<rparr>))"
  using assms by (simp add: createDeployment_def)

lemma createDeployment_rows:
  "rows (snd (createDeployment env d w)) = rows w
   \<or> (\<exists>u. authUser env = Some u \<and> fst (createDeployment env d w) = Inr (insertedRow env 0 u d)
          \<and> rows (snd (createDeployment env d w)) = rows w @ [insertedRow env 0 u d])"
  by (auto simp: createDeployment_def logError_def revalidatePath_def split: option.splits)

lemma initiateDeployment_started:
  assumes "initiateDeployment validate env raw w = (res, w1, Some args)"
  obtains name u where "raw = Some name" "isValid (validate raw)" "authUser env = Some u"
    "res = Inr initiatedResult"
    "w1 = revalidatePath ''/deployments''
            (w\<lparr>rows := rows w @ [insertedRow env 0 u (deployingRecord (trim name))]\<rparr>)"
    "args = \<lparr> templateRepo = shipkitRepo env, deployProjectName = trim name,
              deployDescription = ''Deployment of '' @ trim name, deploymentId = genId env 0 \<rparr>"
  using assms
  by (auto simp: initiateDeployment_def createDeployment_def insertedRow_def
           split: if_splits option.splits prod.splits sum.splits)

lemma initiateDeployment_rows:
  "rows (fst (snd (initiateDeployment validate env raw w))) = rows w
   \<or> (\<exists>u name. rows (fst (snd (initiateDeployment validate env raw w))) =
                   rows w @ [insertedRow env 0 u (deployingRecord name)])"
proof (cases "isValid (validate raw)")
  case False
  then show ?thesis by (simp add: initiateDeployment_def)
next
  case True
  show ?thesis
  proof (cases raw)
    case None
    with True show ?thesis by (simp add: initiateDeployment_def)
  next
    case (Some name)
    from createDeployment_rows [of env "deployingRecord (trim name)" w]
    show ?thesis
      using True Some
      by (cases "createDeployment env (deployingRecord (trim name)) w")
         (auto simp: initiateDeployment_def split: sum.splits)
  qed
qed

lemma deployingRecord_row:
  "status (insertedRow env k u (deployingRecord name)) = ''deploying''"
  "error (insertedRow env k u (deployingRecord name)) = None"
  by (simp_all add: insertedRow_def deployingRecord_def)

lemma initiateDeployment_new_rows:
  "\<exists>new. rows (fst (snd (initiateDeployment validate env raw w))) = rows w @ new
         \<and> (\<forall>r\<in>set new. status r = ''deploying'' \<and> error r = None)"
proof -
  from initiateDeployment_rows [of validate env raw w] show ?thesis
  proof
    assume "rows (fst (snd (initiateDeployment validate env raw w))) = rows w"
    then have "rows (fst (snd (initiateDeployment validate env raw w))) = rows w @ []
         \<and> (\<forall>r\<in>set []. status r = ''deploying'' \<and> error r = None)" by simp
    then show ?thesis by blast
  next
    assume "\<exists>u name. rows (fst (snd (initiateDeployment validate env raw w))) =
                   rows w @ [insertedRow env 0 u (deployingRecord name)]"
    then obtain u name where "rows (fst (snd (initiateDeployment validate env raw w))) =
                   rows w @ [insertedRow env 0 u (deployingRecord name)]" by blast
    then have "rows (fst (snd (initiateDeployment validate env raw w))) =
                   rows w @ [insertedRow env 0 u (deployingRecord name)]
         \<and> (\<forall>r\<in>set [insertedRow env 0 u (deployingRecord name)].
               status r = ''deploying'' \<and> error r = None)"
      by (simp add: deployingRecord_row)
    then show ?thesis by blast
  qed
qed

lemma demo_rows:
  "length (insertedRows env 0 u demoDeployments) = 3"
  "map userId (insertedRows env 0 u demoDeployments) = [u, u, u]"
  "map status (insertedRows env 0 u demoDeployments) = [''completed'', ''completed'', ''failed'']"
  "map error (insertedRows env 0 u demoDeployments) =
     [None, None, Some ''Build failed: Module not found'']"
  by (simp_all add: demoDeployments_def insertedRow_def)

lemma demo_rows_coherent:
  "\<forall>r\<in>set (insertedRows env 0 u demoDeployments).
      (status r = ''completed'' \<or> status r = ''failed'')
      \<and> (status r = ''failed'') = (\<exists>m. error r = Some m \<and> m \<noteq> [])
      \<and> (status r \<noteq> ''failed'') = (error r = None)"
  by (simp add: demoDeployments_def insertedRow_def)

lemma initializeDemoDeployments_owner_has_rows:
  assumes "authUser env = Some u" "filter (\<lambda>r. userId r = u) (rows w) \<noteq> []"
  shows "rows (snd (initializeDemoDeployments env w)) = rows w"
  using assms
  by (cases "filter (\<lambda>r. userId r = u) (rows w)")
     (auto simp: initializeDemoDeployments_def logError_def split: option.splits)

lemma initializeDemoDeployments_rows:
  "rows (snd (initializeDemoDeployments env w)) = rows w
   \<or> (\<exists>u. authUser env = Some u
          \<and> rows (snd (initializeDemoDeployments env w)) =
              rows w @ insertedRows env 0 u demoDeployments)"
  by (auto simp: initializeDemoDeployments_def logError_def split: option.splits)

lemma initializeDemoDeployments_new_rows:
  "\<exists>new. rows (snd (initializeDemoDeployments env w)) = rows w @ new
         \<and> (\<forall>r\<in>set new.
               (status r = ''completed'' \<or> status r = ''failed'')
               \<and> (status r = ''failed'') = (\<exists>m. error r = Some m \<and> m \<noteq> [])
               \<and> (status r \<noteq> ''failed'') = (error r = None))"
proof -
  from initializeDemoDeployments_rows [of env w] show ?thesis
  proof
    assume "rows (snd (initializeDemoDeployments env w)) = rows w"
    then have "rows (snd (initializeDemoDeployments env w)) = rows w @ []" by simp
    then show ?thesis by (metis empty_iff empty_set)
  next
    assume "\<exists>u. authUser env = Some u
          \<and> rows (snd (initializeDemoDeployments env w)) =
              rows w @ insertedRows env 0 u demoDeployments"
    then show ?thesis using demo_rows_coherent by blast
  qed
qed

lemma deleteDeployment_rows:
  "\<exists>P. rows (snd (deleteDeployment env i w)) = filter P (rows w)"
proof (cases "authUser env = None \<or> \<not> dbAvailable env \<or> deleteFault env \<noteq> None")
  case True
  then have "rows (snd (deleteDeployment env i w)) = filter (\<lambda>r. True) (rows w)"
    by (auto simp: deleteDeployment_def split: option.splits)
  then show ?thesis by blast
next
  case False
  then obtain u where "authUser env = Some u" "dbAvailable env" "deleteFault env = None"
    by auto
  then have "rows (snd (deleteDeployment env i w)) = filter (\<lambda>r. \<not> ownedBy i u r) (rows w)"
    by (simp add: deleteDeployment_def)
  then show ?thesis by blast
qed

lemma failedPatch_applied:
  "status (applyPatch (failedPatch e) t r) = ''failed''"
  "error (applyPatch (failedPatch e) t r) = Some (messageOr ''An unknown error occurred'' e)"
  by (simp_all add: applyPatch_def failedPatch_def)

lemma backgroundDeployment_settles:
  "fst (backgroundDeployment deploy env args w) = Inr ()"
  by (simp add: backgroundDeployment_def split: prod.splits sum.splits)

lemma backgroundDeployment_reconciles:
  assumes "deploy args w = (Inl e, w1)"
      and "authUser env = Some u" "dbAvailable env" "updateFault env = None"
  shows "rows (snd (backgroundDeployment deploy env args w)) =
           map (\<lambda>r. if ownedBy (deploymentId args) u r
                     then applyPatch (failedPatch e) (now env) r else r) (rows w1)"
proof -
  let ?w = "logError (''Deployment failed for '' @ deployProjectName args @ '':'') e w1"
  have "rows (snd (backgroundDeployment deploy env args w)) =
          rows (snd (updateDeployment env (deploymentId args) (failedPatch e) ?w))"
    using assms(1) by (simp add: backgroundDeployment_def split: prod.splits sum.splits)
  then show ?thesis
    using updateDeployment_rows [OF assms(2-4), of "deploymentId args" "failedPatch e" ?w]
    by simp
qed

lemma backgroundDeployment_write_fails:
  assumes "deploy args w = (Inl e, w1)"
      and "authUser env = None \<or> \<not> dbAvailable env \<or> updateFault env \<noteq> None"
  shows "rows (snd (backgroundDeployment deploy env args w)) = rows w1
       \<and> (\<exists>t. last (console (snd (backgroundDeployment deploy env args w))) =
                ConsoleError (''Failed to update deployment status for ''
                                @ deployProjectName args @ '':'') t)
       \<and> ConsoleError (''Deployment failed for '' @ deployProjectName args @ '':'') e
           \<in> set (console (snd (backgroundDeployment deploy env args w)))"
proof -
  let ?w = "logError (''Deployment failed for '' @ deployProjectName args @ '':'') e w1"
  obtain t where t: "fst (updateDeployment env (deploymentId args) (failedPatch e) ?w) = Inl t"
    "rows (snd (updateDeployment env (deploymentId args) (failedPatch e) ?w)) = rows ?w"
    "set (console ?w) \<subseteq> set (console (snd (updateDeployment env (deploymentId args) (failedPatch e) ?w)))"
    using updateDeployment_throws [OF assms(2)] by blast
  obtain w2 where w2: "updateDeployment env (deploymentId args) (failedPatch e) ?w = (Inl t, w2)"
    using t(1) by (cases "updateDeployment env (deploymentId args) (failedPatch e) ?w") simp
  have b: "backgroundDeployment deploy env args w =
        (Inr (), logError (''Failed to update deployment status for ''
                                @ deployProjectName args @ '':'') t w2)"
    using assms(1) w2 by (simp add: backgroundDeployment_def)
  have "ConsoleError (''Deployment failed for '' @ deployProjectName args @ '':'') e
           \<in> set (console ?w)"
    by (simp add: logError_def)
  then have "ConsoleError (''Deployment failed for '' @ deployProjectName args @ '':'') e
           \<in> set (console w2)"
    using t(3) w2 by auto
  then show ?thesis using t(2) w2 b by (auto simp: logError_def)
qed

lemma backgroundDeployment_rows_map:
  "\<exists>f. rows (snd (backgroundDeployment deploy env args w)) = map f (rows (snd (deploy args w)))
       \<and> (\<forall>r. f r = r
             \<or> (\<exists>e. fst (deploy args w) = Inl e
                    \<and> f r = applyPatch (failedPatch e) (now env) r))"
proof (cases "deploy args w")
  case (Pair res w1)
  show ?thesis
  proof (cases res)
    case (Inr x)
    with Pair have "rows (snd (backgroundDeployment deploy env args w)) =
        map (\<lambda>r. r) (rows (snd (deploy args w)))"
      by (simp add: backgroundDeployment_def)
    then show ?thesis by blast
  next
    case (Inl e)
    let ?w = "logError (''Deployment failed for '' @ deployProjectName args @ '':'') e w1"
    have "rows (snd (backgroundDeployment deploy env args w)) =
          rows (snd (updateDeployment env (deploymentId args) (failedPatch e) ?w))"
      using Pair Inl by (simp add: backgroundDeployment_def split: prod.splits sum.splits)
    moreover obtain f where
      "rows (snd (updateDeployment env (deploymentId args) (failedPatch e) ?w)) = map f (rows ?w)"
      "\<forall>r. f r = r \<or> (id' r = deploymentId args \<and> f r = applyPatch (failedPatch e) (now env) r)"
      using updateDeployment_rows_map by blast
    ultimately have "rows (snd (backgroundDeployment deploy env args w)) =
          map f (rows (snd (deploy args w)))
       \<and> (\<forall>r. f r = r
             \<or> (\<exists>e. fst (deploy args w) = Inl e
                    \<and> f r = applyPatch (failedPatch e) (now env) r))"
      using Pair Inl by auto
    then show ?thesis by blast
  qed
qed

subsection \<open>Deleting\<close>

text \<open>
  Claim C1 (the code differs). \<^verbatim>\<open>deleteDeployment\<close> is to report whether a row was
  removed: \<^verbatim>\<open>false\<close> for an id that no row has or that belongs to another owner, with
  the number of rows unchanged and nothing thrown. In \<open>sharedWorld\<close> alice deletes an id no
  row has (\<^verbatim>\<open>dep-z\<close>) and the id of bob's row (\<^verbatim>\<open>dep-b\<close>): the rows stay as they
  were and nothing is thrown, but the action returns \<^verbatim>\<open>true\<close> both times.
\<close>

theorem deleteDeployment_true_when_nothing_removed:
  "fst (deleteDeployment aliceEnv ''dep-z'' sharedWorld) = Inr True
   \<and> rows (snd (deleteDeployment aliceEnv ''dep-z'' sharedWorld)) = rows sharedWorld
   \<and> fst (deleteDeployment aliceEnv ''dep-b'' sharedWorld) = Inr True
   \<and> rows (snd (deleteDeployment aliceEnv ''dep-b'' sharedWorld)) = rows sharedWorld"
  by (simp add: deleteDeployment_def authUser_def aliceEnv_def sharedWorld_def ownedBy_def
      revalidatePath_def alicesDeployment_def bobsDeployment_def alicesLater_def)

subsection \<open>Initiating\<close>

text \<open>
  Claim C2, as amended. For every project name the validator accepts, when a principal is
  authenticated, the database is available and the insert succeeds and returns its row,
  \<^verbatim>\<open>initiateDeployment\<close> returns the success result; the table gains exactly one row,
  owned by the principal, with status \<^verbatim>\<open>deploying\<close>, the trimmed name and the id that
  is handed to the background task; when that id is fresh the row is the only one with
  it; and \<^verbatim>\<open>getUserDeployments\<close> of the same principal, run on the world the action
  left, returns the row.
\<close>

theorem initiateDeployment_valid_name_creates_deploying:
  assumes "isValid (validate (Some raw))"
      and "authUser env = Some u" "dbAvailable env" "insertFault env = None" "insertReturnsRow env"
  shows "fst (initiateDeployment validate env (Some raw) w) = Inr initiatedResult
       \<and> success initiatedResult
       \<and> rows (fst (snd (initiateDeployment validate env (Some raw) w))) =
           rows w @ [insertedRow env 0 u (deployingRecord (trim raw))]
       \<and> status (insertedRow env 0 u (deployingRecord (trim raw))) = ''deploying''
       \<and> userId (insertedRow env 0 u (deployingRecord (trim raw))) = u
       \<and> projectName (insertedRow env 0 u (deployingRecord (trim raw))) = trim raw
       \<and> id' (insertedRow env 0 u (deployingRecord (trim raw))) = genId env 0
       \<and> map_option deploymentId (snd (snd (initiateDeployment validate env (Some raw) w))) =
           Some (genId env 0)
       \<and> ((\<forall>x\<in>set (rows w). id' x \<noteq> genId env 0) \<longrightarrow>
            filter (\<lambda>x. id' x = genId env 0)
              (rows (fst (snd (initiateDeployment validate env (Some raw) w)))) =
              [insertedRow env 0 u (deployingRecord (trim raw))])
       \<and> (\<forall>env'. authUser env' = Some u \<and> dbAvailable env' \<and> selectFault env' = None \<longrightarrow>
            (\<exists>xs. fst (getUserDeployments env'
                          (fst (snd (initiateDeployment validate env (Some raw) w)))) = Inr xs
                 \<and> insertedRow env 0 u (deployingRecord (trim raw)) \<in> set xs))"
proof -
  let ?r = "insertedRow env 0 u (deployingRecord (trim raw))"
  let ?w1 = "revalidatePath ''/deployments'' (w\<lparr>rows := rows w @ [?r]\<rparr>)"
  have i: "initiateDeployment validate env (Some raw) w =
            (Inr initiatedResult, ?w1,
             Some \<lparr> templateRepo = shipkitRepo env, deployProjectName = trim raw,
                    deployDescription = ''Deployment of '' @ trim raw, deploymentId = id' ?r \<rparr>)"
    using assms(1) createDeployment_ok [OF assms(2-5)]
    by (simp add: initiateDeployment_def)
  have rw: "rows ?w1 = rows w @ [?r]"
    by (simp add: revalidatePath_def)
  have f: "status ?r = ''deploying''" "userId ?r = u" "projectName ?r = trim raw"
    "id' ?r = genId env 0"
    by (simp_all add: insertedRow_def deployingRecord_def)
  have x: "filter (\<lambda>x. id' x = genId env 0) (rows ?w1) = [?r]"
    if "\<forall>x\<in>set (rows w). id' x \<noteq> genId env 0"
    using that f(4) by (simp add: rw filter_empty_conv)
  have l: "\<exists>xs. fst (getUserDeployments env' ?w1) = Inr xs \<and> ?r \<in> set xs"
    if e: "authUser env' = Some u \<and> dbAvailable env' \<and> selectFault env' = None" for env'
  proof -
    let ?xs = "sort_key (\<lambda>r. - createdAt r) (filter (\<lambda>r. userId r = u) (rows ?w1))"
    have "fst (getUserDeployments env' ?w1) = Inr ?xs"
      using e by (simp add: getUserDeployments_def)
    moreover have "?r \<in> set ?xs"
      using f(2) by (simp add: rw)
    ultimately show ?thesis by blast
  qed
  have s: "success initiatedResult" by (simp add: initiatedResult_def)
  show ?thesis
    unfolding i using rw f x l s by simp
qed

text \<open>
  The theorem at \<open>paddedName\<close>, submitted by alice to an empty table: the stored name is
  \<^verbatim>\<open>"my-app"\<close>.
\<close>

theorem initiateDeployment_valid_name_creates_deploying_witness:
  "isValid (nonEmptyName (Some paddedName))
   \<and> authUser aliceEnv = Some ''alice'' \<and> dbAvailable aliceEnv \<and> insertFault aliceEnv = None
   \<and> insertReturnsRow aliceEnv
   \<and> fst (initiateDeployment nonEmptyName aliceEnv (Some paddedName) emptyWorld) =
       Inr initiatedResult
   \<and> success initiatedResult
   \<and> rows (fst (snd (initiateDeployment nonEmptyName aliceEnv (Some paddedName) emptyWorld))) =
       [myAppRow]
   \<and> status myAppRow = ''deploying''
   \<and> fst (getUserDeployments aliceEnv
            (fst (snd (initiateDeployment nonEmptyName aliceEnv (Some paddedName) emptyWorld)))) =
       Inr [myAppRow]"
proof -
  have v: "isValid (nonEmptyName (Some paddedName))"
    by (simp add: nonEmptyName_def trim_def isSpace_def paddedName_def)
  have h: "authUser aliceEnv = Some ''alice''" "dbAvailable aliceEnv" "insertFault aliceEnv = None"
    "insertReturnsRow aliceEnv"
    by (simp_all add: authUser_def aliceEnv_def)
  have r: "insertedRow aliceEnv 0 ''alice'' (deployingRecord (trim paddedName)) = myAppRow"
    by (simp add: insertedRow_def deployingRecord_def trim_def isSpace_def aliceEnv_def
        myAppRow_def paddedName_def)
  note t = initiateDeployment_valid_name_creates_deploying
    [where validate = nonEmptyName and raw = paddedName and env = aliceEnv
       and u = "''alice''" and w = emptyWorld, OF v h, unfolded r]
  have 1: "rows (fst (snd (initiateDeployment nonEmptyName aliceEnv (Some paddedName) emptyWorld)))
       = [myAppRow]"
    using t by (simp add: emptyWorld_def)
  have 2: "fst (getUserDeployments aliceEnv
            (fst (snd (initiateDeployment nonEmptyName aliceEnv (Some paddedName) emptyWorld)))) =
       Inr [myAppRow]"
    using 1 h by (simp add: getUserDeployments_def aliceEnv_def myAppRow_def)
  show ?thesis using v h t 1 2 by (simp add: myAppRow_def)
qed

text \<open>
  Without the conditions on the store the statement fails: the name is valid and alice
  is authenticated, but the insert throws; the action returns \<^verbatim>\<open>success: false\<close> and
  the table has no row.
\<close>

theorem initiateDeployment_valid_name_insert_fault:
  "isValid (nonEmptyName (Some ''my-app''))
   \<and> authUser faultyInsertEnv = Some ''alice''
   \<and> dbAvailable faultyInsertEnv
   \<and> fst (initiateDeployment nonEmptyName faultyInsertEnv (Some ''my-app'') emptyWorld) =
       Inr \<lparr> success = False, message = None,
              resultError = Some ''Failed to create deployment'', data = None \<rparr>
   \<and> rows (fst (snd (initiateDeployment nonEmptyName faultyInsertEnv (Some ''my-app'') emptyWorld)))
       = []"
  by (simp add: initiateDeployment_def createDeployment_def nonEmptyName_def trim_def isSpace_def
      faultyInsertEnv_def aliceEnv_def authUser_def emptyWorld_def logError_def failedResult_def
      messageOr_def)

text \<open>
  Claim C3. For every project name the validator rejects, \<^verbatim>\<open>initiateDeployment\<close>
  returns \<^verbatim>\<open>success: false\<close> with the validator's error, leaves the world as it was
  (no row is created, nothing else is written) and starts no background task. This holds
  in every environment: the validation comes before the session and the database are
  looked at.
\<close>

theorem initiateDeployment_invalid_name:
  assumes "\<not> isValid (validate raw)"
  shows "initiateDeployment validate env raw w =
           (Inr \<lparr> success = False, message = None,
                  resultError = validationError (validate raw), data = None \<rparr>, w, None)"
  using assms by (simp add: initiateDeployment_def failedResult_def)

text \<open>
  The theorem at a blank name.
\<close>

theorem initiateDeployment_invalid_name_witness:
  "\<not> isValid (nonEmptyName (Some ''   ''))
   \<and> initiateDeployment nonEmptyName aliceEnv (Some ''   '') emptyWorld =
       (Inr \<lparr> success = False, message = None,
              resultError = Some ''Project name is required'', data = None \<rparr>, emptyWorld, None)"
  using initiateDeployment_invalid_name [of nonEmptyName "Some ''   ''" aliceEnv emptyWorld]
  by (simp add: nonEmptyName_def trim_def isSpace_def)

subsection \<open>Status and error of a record\<close>

text \<open>
  Claim C4, as amended. \<^verbatim>\<open>initiateDeployment\<close> and the seeder only append rows, with
  status \<^verbatim>\<open>deploying\<close> for the former and \<^verbatim>\<open>completed\<close> or \<^verbatim>\<open>failed\<close> for the
  latter; \<^verbatim>\<open>deleteDeployment\<close> only removes rows; the background task changes a row
  only by setting its status to \<^verbatim>\<open>failed\<close> (whatever the status was when the job
  threw). \<^verbatim>\<open>updateDeployment\<close> checks no transition: a row it changes has the
  requested id and gets the status of the patch, or keeps its status when the patch has
  none; and when the principal is authenticated and the statement succeeds, every row
  with that id and owner gets the patch's status whatever its status was.
\<close>

theorem status_written_without_transition_check:
  "(\<exists>new. rows (fst (snd (initiateDeployment validate env raw w))) = rows w @ new
          \<and> (\<forall>r\<in>set new. status r = ''deploying''))
   \<and> (\<exists>new. rows (snd (initializeDemoDeployments env w)) = rows w @ new
          \<and> (\<forall>r\<in>set new. status r = ''completed'' \<or> status r = ''failed''))
   \<and> (\<exists>P. rows (snd (deleteDeployment env i w)) = filter P (rows w))
   \<and> (\<exists>f. rows (snd (backgroundDeployment deploy env args w)) =
              map f (rows (snd (deploy args w)))
          \<and> (\<forall>r. f r = r \<or> status (f r) = ''failed''))
   \<and> (\<exists>f. rows (snd (updateDeployment env i p w)) = map f (rows w)
          \<and> (\<forall>r. f r = r
                \<or> (id' r = i
                    \<and> status (f r) = (case set_status p of None \<Rightarrow> status r | Some s \<Rightarrow> s))))
   \<and> (authUser env = Some u \<and> dbAvailable env \<and> updateFault env = None \<longrightarrow>
        map status (rows (snd (updateDeployment env i p w))) =
          map (\<lambda>r. if id' r = i \<and> userId r = u
                    then (case set_status p of None \<Rightarrow> status r | Some s \<Rightarrow> s)
                    else status r) (rows w))"
proof -
  have a: "\<exists>new. rows (fst (snd (initiateDeployment validate env raw w))) = rows w @ new
          \<and> (\<forall>r\<in>set new. status r = ''deploying'')"
    using initiateDeployment_new_rows [of validate env raw w] by blast
  have b: "\<exists>new. rows (snd (initializeDemoDeployments env w)) = rows w @ new
          \<and> (\<forall>r\<in>set new. status r = ''completed'' \<or> status r = ''failed'')"
    using initializeDemoDeployments_new_rows [of env w] by blast
  have c: "\<exists>P. rows (snd (deleteDeployment env i w)) = filter P (rows w)"
    by (rule deleteDeployment_rows)
  have d: "\<exists>f. rows (snd (backgroundDeployment deploy env args w)) =
              map f (rows (snd (deploy args w)))
          \<and> (\<forall>r. f r = r \<or> status (f r) = ''failed'')"
  proof -
    obtain f where f: "rows (snd (backgroundDeployment deploy env args w)) =
        map f (rows (snd (deploy args w)))"
      "\<forall>r. f r = r \<or> (\<exists>e. fst (deploy args w) = Inl e
                    \<and> f r = applyPatch (failedPatch e) (now env) r)"
      using backgroundDeployment_rows_map by blast
    have "\<forall>r. f r = r \<or> status (f r) = ''failed''"
      using f(2) failedPatch_applied(1) by metis
    with f(1) show ?thesis by blast
  qed
  have e: "\<exists>f. rows (snd (updateDeployment env i p w)) = map f (rows w)
          \<and> (\<forall>r. f r = r
                \<or> (id' r = i
                    \<and> status (f r) = (case set_status p of None \<Rightarrow> status r | Some s \<Rightarrow> s)))"
  proof -
    obtain f where f: "rows (snd (updateDeployment env i p w)) = map f (rows w)"
      "\<forall>r. f r = r \<or> (id' r = i \<and> f r = applyPatch p (now env) r)"
      using updateDeployment_rows_map by blast
    have "\<forall>r. f r = r
                \<or> (id' r = i
                    \<and> status (f r) = (case set_status p of None \<Rightarrow> status r | Some s \<Rightarrow> s))"
      using f(2) applyPatch_fields(7) by metis
    with f(1) show ?thesis by blast
  qed
  have g: "map status (rows (snd (updateDeployment env i p w))) =
          map (\<lambda>r. if id' r = i \<and> userId r = u
                    then (case set_status p of None \<Rightarrow> status r | Some s \<Rightarrow> s)
                    else status r) (rows w)"
    if "authUser env = Some u \<and> dbAvailable env \<and> updateFault env = None"
    using that updateDeployment_rows [of env u i p w]
    by (simp add: ownedBy_def applyPatch_fields(7) if_distrib [of status] cong: if_cong)
  show ?thesis using a b c d e g by blast
qed

text \<open>
  The theorem at alice's rows: her failed record is set to \<^verbatim>\<open>completed\<close>, and the
  same patch aimed at bob's record changes nothing.
\<close>

theorem status_written_without_transition_check_witness:
  "authUser aliceEnv = Some ''alice'' \<and> dbAvailable aliceEnv \<and> updateFault aliceEnv = None
   \<and> map status (rows sharedWorld) = [''completed'', ''deploying'', ''failed'']
   \<and> map status (rows (snd (updateDeployment aliceEnv ''dep-c''
                              (emptyPatch\<lparr>set_status := Some ''completed''\<rparr>) sharedWorld))) =
       [''completed'', ''deploying'', ''completed'']
   \<and> map status (rows (snd (updateDeployment aliceEnv ''dep-b''
                              (emptyPatch\<lparr>set_status := Some ''completed''\<rparr>) sharedWorld))) =
       [''completed'', ''deploying'', ''failed'']"
proof -
  have h: "authUser aliceEnv = Some ''alice'' \<and> dbAvailable aliceEnv \<and> updateFault aliceEnv = None"
    by (simp add: authUser_def aliceEnv_def)
  have s: "map status (rows sharedWorld) = [''completed'', ''deploying'', ''failed'']"
    by (simp add: sharedWorld_def alicesDeployment_def bobsDeployment_def alicesLater_def)
  have 1: "map status (rows (snd (updateDeployment aliceEnv ''dep-c''
                              (emptyPatch\<lparr>set_status := Some ''completed''\<rparr>) sharedWorld))) =
       [''completed'', ''deploying'', ''completed'']"
    using status_written_without_transition_check
            [where env = aliceEnv and u = "''alice''" and i = "''dep-c''"
               and p = "emptyPatch\<lparr>set_status := Some ''completed''\<rparr>" and w = sharedWorld] h
    by (simp add: sharedWorld_def alicesDeployment_def bobsDeployment_def alicesLater_def)
  have 2: "map status (rows (snd (updateDeployment aliceEnv ''dep-b''
                              (emptyPatch\<lparr>set_status := Some ''completed''\<rparr>) sharedWorld))) =
       [''completed'', ''deploying'', ''failed'']"
    using status_written_without_transition_check
            [where env = aliceEnv and u = "''alice''" and i = "''dep-b''"
               and p = "emptyPatch\<lparr>set_status := Some ''completed''\<rparr>" and w = sharedWorld] h
    by (simp add: sharedWorld_def alicesDeployment_def bobsDeployment_def alicesLater_def)
  show ?thesis using h s 1 2 by simp
qed

text \<open>
  The transitions are not limited to those leaving \<^verbatim>\<open>deploying\<close>: an update with the
  patch \<^verbatim>\<open>{ status: "deploying" }\<close> takes alice's completed record back to
  \<^verbatim>\<open>deploying\<close>.
\<close>

theorem updateDeployment_reverts_completed:
  "map status (rows sharedWorld) = [''completed'', ''deploying'', ''failed'']
   \<and> map status (rows (snd (updateDeployment aliceEnv ''dep-a'' revertPatch sharedWorld))) =
       [''deploying'', ''deploying'', ''failed'']"
  by (simp add: updateDeployment_def authUser_def aliceEnv_def sharedWorld_def ownedBy_def
      applyPatch_def emptyPatch_def revertPatch_def revalidatePath_def alicesDeployment_def
      bobsDeployment_def alicesLater_def)

text \<open>
  Claim C5, as amended. The row \<^verbatim>\<open>initiateDeployment\<close> creates has status
  \<^verbatim>\<open>deploying\<close> and no error; among the rows the seeder inserts, the error is set
  (and non-empty) exactly on the failed one; a row the background task changes has status
  \<^verbatim>\<open>failed\<close> and the job's message as its error (the fallback text when the thrown
  value is not an \<^verbatim>\<open>Error\<close>), which is non-empty whenever that message is.
  \<^verbatim>\<open>updateDeployment\<close> does not keep the two columns in step: a row it changes gets
  the status and the error of the patch, each left as it was when the patch does not have
  it.
\<close>

theorem error_written_with_status_except_by_update:
  "(\<exists>new. rows (fst (snd (initiateDeployment validate env raw w))) = rows w @ new
          \<and> (\<forall>r\<in>set new. status r = ''deploying'' \<and> error r = None))
   \<and> (\<exists>new. rows (snd (initializeDemoDeployments env w)) = rows w @ new
          \<and> (\<forall>r\<in>set new. (status r = ''failed'') = (\<exists>m. error r = Some m \<and> m \<noteq> []))
          \<and> (\<forall>r\<in>set new. (status r \<noteq> ''failed'') = (error r = None)))
   \<and> (\<exists>f. rows (snd (backgroundDeployment deploy env args w)) =
              map f (rows (snd (deploy args w)))
          \<and> (\<forall>r. f r = r
                \<or> (\<exists>e. fst (deploy args w) = Inl e
                       \<and> status (f r) = ''failed''
                       \<and> error (f r) = Some (messageOr ''An unknown error occurred'' e))))
   \<and> (\<forall>m. messageOr ''An unknown error occurred'' (Error m) = m)
   \<and> (\<exists>f. rows (snd (updateDeployment env i p w)) = map f (rows w)
          \<and> (\<forall>r. f r = r
                \<or> (status (f r) = (case set_status p of None \<Rightarrow> status r | Some s \<Rightarrow> s)
                    \<and> error (f r) = (case set_error p of None \<Rightarrow> error r | Some e \<Rightarrow> e))))
   \<and> (authUser env = Some u \<and> dbAvailable env \<and> updateFault env = None \<longrightarrow>
        map error (rows (snd (updateDeployment env i p w))) =
          map (\<lambda>r. if id' r = i \<and> userId r = u
                    then (case set_error p of None \<Rightarrow> error r | Some e \<Rightarrow> e)
                    else error r) (rows w))"
proof -
  have a: "\<exists>new. rows (fst (snd (initiateDeployment validate env raw w))) = rows w @ new
          \<and> (\<forall>r\<in>set new. status r = ''deploying'' \<and> error r = None)"
    by (rule initiateDeployment_new_rows)
  have b: "\<exists>new. rows (snd (initializeDemoDeployments env w)) = rows w @ new
          \<and> (\<forall>r\<in>set new. (status r = ''failed'') = (\<exists>m. error r = Some m \<and> m \<noteq> []))
          \<and> (\<forall>r\<in>set new. (status r \<noteq> ''failed'') = (error r = None))"
    using initializeDemoDeployments_new_rows [of env w] by blast
  have c: "\<exists>f. rows (snd (backgroundDeployment deploy env args w)) =
              map f (rows (snd (deploy args w)))
          \<and> (\<forall>r. f r = r
                \<or> (\<exists>e. fst (deploy args w) = Inl e
                       \<and> status (f r) = ''failed''
                       \<and> error (f r) = Some (messageOr ''An unknown error occurred'' e)))"
  proof -
    obtain f where f: "rows (snd (backgroundDeployment deploy env args w)) =
        map f (rows (snd (deploy args w)))"
      "\<forall>r. f r = r \<or> (\<exists>e. fst (deploy args w) = Inl e
                    \<and> f r = applyPatch (failedPatch e) (now env) r)"
      using backgroundDeployment_rows_map by blast
    have "\<forall>r. f r = r
                \<or> (\<exists>e. fst (deploy args w) = Inl e
                       \<and> status (f r) = ''failed''
                       \<and> error (f r) = Some (messageOr ''An unknown error occurred'' e))"
      using f(2) failedPatch_applied by metis
    with f(1) show ?thesis by blast
  qed
  have d: "\<forall>m. messageOr ''An unknown error occurred'' (Error m) = m"
    by (simp add: messageOr_def)
  have e: "\<exists>f. rows (snd (updateDeployment env i p w)) = map f (rows w)
          \<and> (\<forall>r. f r = r
                \<or> (status (f r) = (case set_status p of None \<Rightarrow> status r | Some s \<Rightarrow> s)
                    \<and> error (f r) = (case set_error p of None \<Rightarrow> error r | Some e \<Rightarrow> e)))"
  proof -
    obtain f where f: "rows (snd (updateDeployment env i p w)) = map f (rows w)"
      "\<forall>r. f r = r \<or> (id' r = i \<and> f r = applyPatch p (now env) r)"
      using updateDeployment_rows_map by blast
    have "\<forall>r. f r = r
                \<or> (status (f r) = (case set_status p of None \<Rightarrow> status r | Some s \<Rightarrow> s)
                    \<and> error (f r) = (case set_error p of None \<Rightarrow> error r | Some e \<Rightarrow> e))"
      using f(2) applyPatch_fields(7,8) by metis
    with f(1) show ?thesis by blast
  qed
  have g: "map error (rows (snd (updateDeployment env i p w))) =
          map (\<lambda>r. if id' r = i \<and> userId r = u
                    then (case set_error p of None \<Rightarrow> error r | Some e \<Rightarrow> e)
                    else error r) (rows w)"
    if "authUser env = Some u \<and> dbAvailable env \<and> updateFault env = None"
    using that updateDeployment_rows [of env u i p w]
    by (simp add: ownedBy_def applyPatch_fields(8) if_distrib [of error] cong: if_cong)
  show ?thesis using a b c d e g by blast
qed

text \<open>
  The theorem at alice's failed record: a patch clearing the error leaves the status, and
  a patch setting the status leaves the error.
\<close>

theorem error_written_with_status_except_by_update_witness:
  "authUser aliceEnv = Some ''alice'' \<and> dbAvailable aliceEnv \<and> updateFault aliceEnv = None
   \<and> map error (rows sharedWorld) = [None, None, Some ''Build failed'']
   \<and> map error (rows (snd (updateDeployment aliceEnv ''dep-c''
                              (emptyPatch\<lparr>set_error := Some None\<rparr>) sharedWorld))) =
       [None, None, None]
   \<and> map error (rows (snd (updateDeployment aliceEnv ''dep-c''
                              (emptyPatch\<lparr>set_status := Some ''completed''\<rparr>) sharedWorld))) =
       [None, None, Some ''Build failed'']"
proof -
  have h: "authUser aliceEnv = Some ''alice'' \<and> dbAvailable aliceEnv \<and> updateFault aliceEnv = None"
    by (simp add: authUser_def aliceEnv_def)
  have s: "map error (rows sharedWorld) = [None, None, Some ''Build failed'']"
    by (simp add: sharedWorld_def alicesDeployment_def bobsDeployment_def alicesLater_def)
  have 1: "map error (rows (snd (updateDeployment aliceEnv ''dep-c''
                              (emptyPatch\<lparr>set_error := Some None\<rparr>) sharedWorld))) =
       [None, None, None]"
    using error_written_with_status_except_by_update
            [where env = aliceEnv and u = "''alice''" and i = "''dep-c''"
               and p = "emptyPatch\<lparr>set_error := Some None\<rparr>" and w = sharedWorld] h
    by (simp add: sharedWorld_def alicesDeployment_def bobsDeployment_def alicesLater_def)
  have 2: "map error (rows (snd (updateDeployment aliceEnv ''dep-c''
                              (emptyPatch\<lparr>set_status := Some ''completed''\<rparr>) sharedWorld))) =
       [None, None, Some ''Build failed'']"
    using error_written_with_status_except_by_update
            [where env = aliceEnv and u = "''alice''" and i = "''dep-c''"
               and p = "emptyPatch\<lparr>set_status := Some ''completed''\<rparr>" and w = sharedWorld] h
    by (simp add: sharedWorld_def alicesDeployment_def bobsDeployment_def alicesLater_def
        emptyPatch_def)
  show ?thesis using h s 1 2 by simp
qed

text \<open>
  After an update the equivalence can fail: the patch \<^verbatim>\<open>{ status: "failed" }\<close> on
  alice's completed record gives a failed record whose error is not set.
\<close>

theorem updateDeployment_failed_without_error:
  "map status (rows (snd (updateDeployment aliceEnv ''dep-a'' failOnlyPatch sharedWorld))) =
       [''failed'', ''deploying'', ''failed'']
   \<and> map error (rows (snd (updateDeployment aliceEnv ''dep-a'' failOnlyPatch sharedWorld))) =
       [None, None, Some ''Build failed'']"
  by (simp add: updateDeployment_def authUser_def aliceEnv_def sharedWorld_def ownedBy_def
      applyPatch_def emptyPatch_def failOnlyPatch_def revalidatePath_def alicesDeployment_def
      bobsDeployment_def alicesLater_def)

subsection \<open>The background task\<close>

text \<open>
  Claim C6. Let \<^verbatim>\<open>initiateDeployment\<close> have returned its result and started the
  background task, and let the deployment job throw an \<^verbatim>\<open>Error\<close> with message
  \<open>msg\<close>, leaving the table as it was. Then the result already returned is the success
  result and the new record is in status \<^verbatim>\<open>deploying\<close>; the task's promise is
  fulfilled in every environment (nothing is thrown on); when the reconciling update
  goes through (same principal, database available, statement succeeds) the record
  becomes \<^verbatim>\<open>failed\<close> with error \<open>msg\<close> and a fresh \<^verbatim>\<open>updatedAt\<close>; and when the
  update throws (no session, no database, or a failing statement) the table is left as it
  was, so the record stays \<^verbatim>\<open>deploying\<close>, and the last console entry is the error
  logged for the failed update.
\<close>

theorem backgroundDeployment_job_failure:
  assumes "initiateDeployment validate env raw w = (Inr res, w1, Some args)"
      and "deploy args w1 = (Inl (Error msg), w2)" "rows w2 = rows w1"
  shows "success res
       \<and> status (last (rows w1)) = ''deploying''
       \<and> id' (last (rows w1)) = deploymentId args
       \<and> fst (backgroundDeployment deploy env' args w1) = Inr ()
       \<and> (authUser env' = authUser env \<and> dbAvailable env' \<and> updateFault env' = None \<longrightarrow>
            length (rows (snd (backgroundDeployment deploy env' args w1))) = length (rows w1)
            \<and> last (rows (snd (backgroundDeployment deploy env' args w1))) =
                (last (rows w1))\<lparr>status := ''failed'', error := Some msg, updatedAt := now env'\<rparr>)
       \<and> (authUser env' = None \<or> \<not> dbAvailable env' \<or> updateFault env' \<noteq> None \<longrightarrow>
            rows (snd (backgroundDeployment deploy env' args w1)) = rows w1
            \<and> (\<exists>t. last (console (snd (backgroundDeployment deploy env' args w1))) =
                  ConsoleError (''Failed to update deployment status for ''
                                  @ deployProjectName args @ '':'') t))"
proof -
  obtain name u where s: "raw = Some name" "authUser env = Some u"
    "Inr res = (Inr initiatedResult :: thrown + DeploymentResult)"
    "w1 = revalidatePath ''/deployments''
            (w\<lparr>rows := rows w @ [insertedRow env 0 u (deployingRecord (trim name))]\<rparr>)"
    "args = \<lparr> templateRepo = shipkitRepo env, deployProjectName = trim name,
              deployDescription = ''Deployment of '' @ trim name, deploymentId = genId env 0 \<rparr>"
    using initiateDeployment_started [OF assms(1)] by metis
  let ?r = "insertedRow env 0 u (deployingRecord (trim name))"
  have l: "last (rows w1) = ?r" "rows w1 \<noteq> []"
    by (simp_all add: s(4))
  have a: "success res" using s(3) by (simp add: initiatedResult_def)
  have b: "status (last (rows w1)) = ''deploying''" "id' (last (rows w1)) = deploymentId args"
    "ownedBy (deploymentId args) u (last (rows w1))"
    by (simp_all add: l s(5) insertedRow_def deployingRecord_def ownedBy_def)
  have c: "fst (backgroundDeployment deploy env' args w1) = Inr ()"
    by (rule backgroundDeployment_settles)
  have d: "length (rows (snd (backgroundDeployment deploy env' args w1))) = length (rows w1)
            \<and> last (rows (snd (backgroundDeployment deploy env' args w1))) =
                (last (rows w1))\<lparr>status := ''failed'', error := Some msg, updatedAt := now env'\<rparr>"
    if h: "authUser env' = authUser env \<and> dbAvailable env' \<and> updateFault env' = None"
  proof -
    have "rows (snd (backgroundDeployment deploy env' args w1)) =
           map (\<lambda>r. if ownedBy (deploymentId args) u r
                     then applyPatch (failedPatch (Error msg)) (now env') r else r) (rows w1)"
      using backgroundDeployment_reconciles
              [where deploy = deploy and args = args and w = w1 and e = "Error msg" and ?w1.0 = w2
                 and env = env' and u = u]
            assms(2,3) h s(2)
      by simp
    moreover have "applyPatch (failedPatch (Error msg)) (now env') (last (rows w1)) =
        (last (rows w1))\<lparr>status := ''failed'', error := Some msg, updatedAt := now env'\<rparr>"
      by (simp add: applyPatch_def failedPatch_def messageOr_def)
    ultimately show ?thesis using l(2) b(3) by (simp add: last_map)
  qed
  have e: "rows (snd (backgroundDeployment deploy env' args w1)) = rows w1
            \<and> (\<exists>t. last (console (snd (backgroundDeployment deploy env' args w1))) =
                  ConsoleError (''Failed to update deployment status for ''
                                  @ deployProjectName args @ '':'') t)"
    if h: "authUser env' = None \<or> \<not> dbAvailable env' \<or> updateFault env' \<noteq> None"
    using backgroundDeployment_write_fails
            [where deploy = deploy and args = args and w = w1 and e = "Error msg" and ?w1.0 = w2
               and env = env']
          assms(2,3) h
    by simp
  show ?thesis using a b(1,2) c d e by blast
qed

text \<open>
  The theorem at \<^verbatim>\<open>"my-app"\<close>, with a job throwing \<^verbatim>\<open>Error("Build failed")\<close>: once
  with a working update, once with an update statement that throws.
\<close>

theorem backgroundDeployment_job_failure_witness:
  "initiateDeployment nonEmptyName aliceEnv (Some ''my-app'') emptyWorld =
     (Inr initiatedResult, myAppWorld, Some myAppArgs)
   \<and> buildFails myAppArgs myAppWorld = (Inl (Error ''Build failed''), myAppWorld)
   \<and> authUser laterEnv = authUser aliceEnv \<and> dbAvailable laterEnv \<and> updateFault laterEnv = None
   \<and> fst (backgroundDeployment buildFails laterEnv myAppArgs myAppWorld) = Inr ()
   \<and> rows (snd (backgroundDeployment buildFails laterEnv myAppArgs myAppWorld)) =
       [myAppRow\<lparr>status := ''failed'', error := Some ''Build failed'', updatedAt := 2000\<rparr>]
   \<and> updateFault faultyUpdateEnv = Some (Error ''connection lost'')
   \<and> fst (backgroundDeployment buildFails faultyUpdateEnv myAppArgs myAppWorld) = Inr ()
   \<and> rows (snd (backgroundDeployment buildFails faultyUpdateEnv myAppArgs myAppWorld)) = [myAppRow]
   \<and> last (console (snd (backgroundDeployment buildFails faultyUpdateEnv myAppArgs myAppWorld))) =
       ConsoleError ''Failed to update deployment status for my-app:''
         (Error ''Failed to update deployment'')"
proof -
  have i: "initiateDeployment nonEmptyName aliceEnv (Some ''my-app'') emptyWorld =
     (Inr initiatedResult, myAppWorld, Some myAppArgs)"
    by (simp add: initiateDeployment_def createDeployment_def nonEmptyName_def trim_def
        isSpace_def aliceEnv_def authUser_def emptyWorld_def revalidatePath_def insertedRow_def
        deployingRecord_def myAppWorld_def myAppArgs_def myAppRow_def)
  have j: "buildFails myAppArgs myAppWorld = (Inl (Error ''Build failed''), myAppWorld)"
    by (simp add: buildFails_def)
  have h: "authUser laterEnv = authUser aliceEnv" "dbAvailable laterEnv" "updateFault laterEnv = None"
    "updateFault faultyUpdateEnv = Some (Error ''connection lost'')"
    by (simp_all add: laterEnv_def faultyUpdateEnv_def aliceEnv_def authUser_def)
  note t = backgroundDeployment_job_failure
    [where validate = nonEmptyName and env = aliceEnv and raw = "Some ''my-app''"
       and w = emptyWorld and res = initiatedResult and ?w1.0 = myAppWorld and args = myAppArgs
       and deploy = buildFails and msg = "''Build failed''" and ?w2.0 = myAppWorld,
     OF i j refl]
  have 1: "fst (backgroundDeployment buildFails laterEnv myAppArgs myAppWorld) = Inr ()
     \<and> rows (snd (backgroundDeployment buildFails laterEnv myAppArgs myAppWorld)) =
       [myAppRow\<lparr>status := ''failed'', error := Some ''Build failed'', updatedAt := 2000\<rparr>]"
    using t [where env' = laterEnv] h(1-3)
    by (cases "rows (snd (backgroundDeployment buildFails laterEnv myAppArgs myAppWorld))")
       (simp_all add: myAppWorld_def laterEnv_def)
  have 2: "fst (backgroundDeployment buildFails faultyUpdateEnv myAppArgs myAppWorld) = Inr ()
     \<and> rows (snd (backgroundDeployment buildFails faultyUpdateEnv myAppArgs myAppWorld)) = [myAppRow]"
    using t [where env' = faultyUpdateEnv] h(4) by (simp add: myAppWorld_def)
  have 3: "last (console (snd (backgroundDeployment buildFails faultyUpdateEnv myAppArgs myAppWorld))) =
       ConsoleError ''Failed to update deployment status for my-app:''
         (Error ''Failed to update deployment'')"
    by (simp add: backgroundDeployment_def buildFails_def updateDeployment_def faultyUpdateEnv_def
        aliceEnv_def authUser_def logError_def myAppArgs_def)
  show ?thesis using i j h 1 2 3 by simp
qed

subsection \<open>Updating and listing\<close>

text \<open>
  Claim C7. For an authenticated principal and a working update statement,
  \<^verbatim>\<open>updateDeployment\<close> changes exactly the rows with the given id and that owner, and
  returns the first of them updated; on such a row \<^verbatim>\<open>id\<close>, \<^verbatim>\<open>userId\<close> and
  \<^verbatim>\<open>createdAt\<close> stay, \<^verbatim>\<open>updatedAt\<close> becomes the clock, and every other column
  takes the patch's value when the patch has one and keeps its own otherwise. When no row
  has the id, or the rows that have it belong to other owners, the action returns
  \<^verbatim>\<open>null\<close> and the world is unchanged: the two cases are not told apart.
\<close>

theorem updateDeployment_changes_only_patched_fields:
  assumes "authUser env = Some u" "dbAvailable env" "updateFault env = None"
  shows "rows (snd (updateDeployment env i p w)) =
           map (\<lambda>r. if id' r = i \<and> userId r = u then applyPatch p (now env) r else r) (rows w)
       \<and> fst (updateDeployment env i p w) =
           Inr (map_option (applyPatch p (now env))
                  (List.find (\<lambda>r. id' r = i \<and> userId r = u) (rows w)))
       \<and> ((\<forall>r\<in>set (rows w). id' r \<noteq> i \<or> userId r \<noteq> u)
            \<longrightarrow> updateDeployment env i p w = (Inr None, w))
       \<and> (\<forall>r. id' (applyPatch p (now env) r) = id' r
             \<and> userId (applyPatch p (now env) r) = userId r
             \<and> createdAt (applyPatch p (now env) r) = createdAt r
             \<and> updatedAt (applyPatch p (now env) r) = now env
             \<and> projectName (applyPatch p (now env) r) =
                 (case set_projectName p of None \<Rightarrow> projectName r | Some v \<Rightarrow> v)
             \<and> description (applyPatch p (now env) r) =
                 (case set_description p of None \<Rightarrow> description r | Some v \<Rightarrow> v)
             \<and> githubRepoUrl (applyPatch p (now env) r) =
                 (case set_githubRepoUrl p of None \<Rightarrow> githubRepoUrl r | Some v \<Rightarrow> v)
             \<and> githubRepoName (applyPatch p (now env) r) =
                 (case set_githubRepoName p of None \<Rightarrow> githubRepoName r | Some v \<Rightarrow> v)
             \<and> vercelProjectUrl (applyPatch p (now env) r) =
                 (case set_vercelProjectUrl p of None \<Rightarrow> vercelProjectUrl r | Some v \<Rightarrow> v)
             \<and> vercelDeploymentUrl (applyPatch p (now env) r) =
                 (case set_vercelDeploymentUrl p of None \<Rightarrow> vercelDeploymentUrl r | Some v \<Rightarrow> v)
             \<and> status (applyPatch p (now env) r) =
                 (case set_status p of None \<Rightarrow> status r | Some v \<Rightarrow> v)
             \<and> error (applyPatch p (now env) r) =
                 (case set_error p of None \<Rightarrow> error r | Some v \<Rightarrow> v))"
proof -
  have own: "ownedBy i u = (\<lambda>r. id' r = i \<and> userId r = u)"
    by (rule ext) (simp add: ownedBy_def)
  have a: "rows (snd (updateDeployment env i p w)) =
           map (\<lambda>r. if id' r = i \<and> userId r = u then applyPatch p (now env) r else r) (rows w)"
    using updateDeployment_rows [OF assms, of i p w] by (simp add: own)
  have b: "fst (updateDeployment env i p w) =
           Inr (map_option (applyPatch p (now env))
                  (List.find (\<lambda>r. id' r = i \<and> userId r = u) (rows w)))"
    using updateDeployment_result [OF assms, of i p w] by (simp add: own)
  have c: "(\<forall>r\<in>set (rows w). id' r \<noteq> i \<or> userId r \<noteq> u)
            \<longrightarrow> updateDeployment env i p w = (Inr None, w)"
    using updateDeployment_not_found [OF assms] by blast
  show ?thesis
    using a b c by (simp add: applyPatch_fields)
qed

text \<open>
  The theorem at alice's record (the patch writes NULL into \<^verbatim>\<open>description\<close>), at
  bob's record and at an id no row has.
\<close>

theorem updateDeployment_changes_only_patched_fields_witness:
  "authUser aliceEnv = Some ''alice'' \<and> dbAvailable aliceEnv \<and> updateFault aliceEnv = None
   \<and> rows (snd (updateDeployment aliceEnv ''dep-a''
                  (emptyPatch\<lparr>set_description := Some None\<rparr>) sharedWorld)) =
       [alicesDeployment\<lparr>description := None, updatedAt := 1000\<rparr>, bobsDeployment, alicesLater]
   \<and> fst (updateDeployment aliceEnv ''dep-a''
             (emptyPatch\<lparr>set_description := Some None\<rparr>) sharedWorld) =
       Inr (Some (alicesDeployment\<lparr>description := None, updatedAt := 1000\<rparr>))
   \<and> updateDeployment aliceEnv ''dep-b'' (emptyPatch\<lparr>set_description := Some None\<rparr>) sharedWorld =
       (Inr None, sharedWorld)
   \<and> updateDeployment aliceEnv ''dep-z'' (emptyPatch\<lparr>set_description := Some None\<rparr>) sharedWorld =
       (Inr None, sharedWorld)"
proof -
  have h: "authUser aliceEnv = Some ''alice''" "dbAvailable aliceEnv" "updateFault aliceEnv = None"
    by (simp_all add: authUser_def aliceEnv_def)
  note t = updateDeployment_changes_only_patched_fields [OF h]
  have 1: "rows (snd (updateDeployment aliceEnv ''dep-a''
                  (emptyPatch\<lparr>set_description := Some None\<rparr>) sharedWorld)) =
       [alicesDeployment\<lparr>description := None, updatedAt := 1000\<rparr>, bobsDeployment, alicesLater]"
    using t [where i = "''dep-a''" and p = "emptyPatch\<lparr>set_description := Some None\<rparr>" and w = sharedWorld]
    by (simp add: sharedWorld_def alicesDeployment_def bobsDeployment_def alicesLater_def
        applyPatch_def emptyPatch_def aliceEnv_def)
  have 2: "fst (updateDeployment aliceEnv ''dep-a''
             (emptyPatch\<lparr>set_description := Some None\<rparr>) sharedWorld) =
       Inr (Some (alicesDeployment\<lparr>description := None, updatedAt := 1000\<rparr>))"
    using t [where i = "''dep-a''" and p = "emptyPatch\<lparr>set_description := Some None\<rparr>" and w = sharedWorld]
    by (simp add: sharedWorld_def alicesDeployment_def bobsDeployment_def alicesLater_def
        applyPatch_def emptyPatch_def aliceEnv_def)
  have 3: "updateDeployment aliceEnv ''dep-b'' (emptyPatch\<lparr>set_description := Some None\<rparr>) sharedWorld =
       (Inr None, sharedWorld)"
    using t [where i = "''dep-b''" and p = "emptyPatch\<lparr>set_description := Some None\<rparr>" and w = sharedWorld]
    by (simp add: sharedWorld_def alicesDeployment_def bobsDeployment_def alicesLater_def)
  have 4: "updateDeployment aliceEnv ''dep-z'' (emptyPatch\<lparr>set_description := Some None\<rparr>) sharedWorld =
       (Inr None, sharedWorld)"
    using t [where i = "''dep-z''" and p = "emptyPatch\<lparr>set_description := Some None\<rparr>" and w = sharedWorld]
    by (simp add: sharedWorld_def alicesDeployment_def bobsDeployment_def alicesLater_def)
  show ?thesis using h 1 2 3 4 by simp
qed

text \<open>
  Claim C8. For an authenticated principal and a working select statement,
  \<^verbatim>\<open>getUserDeployments\<close> returns exactly the rows of the table whose \<^verbatim>\<open>userId\<close> is
  the principal (each as often as the table has it), so no row of another owner, and the
  list is ordered by \<^verbatim>\<open>createdAt\<close> descending. The world is unchanged.
\<close>

theorem getUserDeployments_own_rows_newest_first:
  assumes "authUser env = Some u" "dbAvailable env" "selectFault env = None"
  shows "\<exists>xs. getUserDeployments env w = (Inr xs, w)
           \<and> mset xs = filter_mset (\<lambda>r. userId r = u) (mset (rows w))
           \<and> (\<forall>r\<in>set xs. userId r = u)
           \<and> sorted_wrt (\<lambda>a b. createdAt b \<le> createdAt a) xs"
proof -
  let ?xs = "sort_key (\<lambda>r. - createdAt r) (filter (\<lambda>r. userId r = u) (rows w))"
  have r: "getUserDeployments env w = (Inr ?xs, w)"
    using assms by (simp add: getUserDeployments_def)
  have m: "mset ?xs = filter_mset (\<lambda>r. userId r = u) (mset (rows w))"
    by simp
  have o: "\<forall>r\<in>set ?xs. userId r = u"
    by simp
  have "sorted (map (\<lambda>r. - createdAt r) ?xs)"
    by (rule sorted_sort_key)
  then have d: "sorted_wrt (\<lambda>a b. createdAt b \<le> createdAt a) ?xs"
    by (simp add: sorted_map)
  from r m o d show ?thesis by blast
qed

text \<open>
  The theorem at the table shared by alice and bob.
\<close>

theorem getUserDeployments_own_rows_newest_first_witness:
  "authUser aliceEnv = Some ''alice'' \<and> dbAvailable aliceEnv \<and> selectFault aliceEnv = None
   \<and> getUserDeployments aliceEnv sharedWorld = (Inr [alicesLater, alicesDeployment], sharedWorld)"
proof -
  have h: "authUser aliceEnv = Some ''alice''" "dbAvailable aliceEnv" "selectFault aliceEnv = None"
    by (simp_all add: authUser_def aliceEnv_def)
  have "getUserDeployments aliceEnv sharedWorld = (Inr [alicesLater, alicesDeployment], sharedWorld)"
    using getUserDeployments_own_rows_newest_first [OF h, of sharedWorld] h
    by (simp add: getUserDeployments_def sharedWorld_def alicesDeployment_def bobsDeployment_def
        alicesLater_def)
  with h show ?thesis by simp
qed

subsection \<open>Seeding\<close>

text \<open>
  Claim C9, as amended. For an authenticated principal, when the database is available and
  neither the existence check nor the insert throws: if the principal has no row,
  \<^verbatim>\<open>initializeDemoDeployments\<close> appends exactly three rows of that owner in one
  insert, with statuses \<^verbatim>\<open>completed\<close>, \<^verbatim>\<open>completed\<close>, \<^verbatim>\<open>failed\<close>; if the
  principal has a row, the world is unchanged; and a second call by the same principal, in
  any environment, leaves the table as the first call left it.
\<close>

theorem initializeDemoDeployments_seeds_three_once:
  assumes "authUser env = Some u" "dbAvailable env" "selectFault env = None"
      and "insertFault env = None"
  shows "(filter (\<lambda>r. userId r = u) (rows w) = [] \<longrightarrow>
            initializeDemoDeployments env w =
              (Inr (), w\<lparr>rows := rows w @ insertedRows env 0 u demoDeployments\<rparr>)
            \<and> length (insertedRows env 0 u demoDeployments) = 3
            \<and> map userId (insertedRows env 0 u demoDeployments) = [u, u, u]
            \<and> map status (insertedRows env 0 u demoDeployments) =
                [''completed'', ''completed'', ''failed''])
       \<and> (filter (\<lambda>r. userId r = u) (rows w) \<noteq> [] \<longrightarrow>
            initializeDemoDeployments env w = (Inr (), w))
       \<and> (\<forall>env'. authUser env' = Some u \<longrightarrow>
            rows (snd (initializeDemoDeployments env' (snd (initializeDemoDeployments env w)))) =
              rows (snd (initializeDemoDeployments env w)))"
proof -
  have a: "initializeDemoDeployments env w =
              (Inr (), w\<lparr>rows := rows w @ insertedRows env 0 u demoDeployments\<rparr>)"
    if "filter (\<lambda>r. userId r = u) (rows w) = []"
    using assms that by (simp add: initializeDemoDeployments_def)
  have b: "initializeDemoDeployments env w = (Inr (), w)"
    if "filter (\<lambda>r. userId r = u) (rows w) \<noteq> []"
    using assms that
    by (cases "filter (\<lambda>r. userId r = u) (rows w)") (simp_all add: initializeDemoDeployments_def)
  have "filter (\<lambda>r. userId r = u) (rows (snd (initializeDemoDeployments env w))) \<noteq> []"
  proof (cases "filter (\<lambda>r. userId r = u) (rows w) = []")
    case True
    then show ?thesis by (simp add: a demoDeployments_def insertedRow_def)
  next
    case False
    then show ?thesis by (simp add: b)
  qed
  then have c: "rows (snd (initializeDemoDeployments env' (snd (initializeDemoDeployments env w)))) =
              rows (snd (initializeDemoDeployments env w))" if "authUser env' = Some u" for env'
    using that by (rule initializeDemoDeployments_owner_has_rows [rotated])
  show ?thesis using a b c by (simp add: demo_rows)
qed

text \<open>
  The theorem at an empty table and at a table where alice has rows.
\<close>

theorem initializeDemoDeployments_seeds_three_once_witness:
  "authUser aliceEnv = Some ''alice'' \<and> dbAvailable aliceEnv \<and> selectFault aliceEnv = None
   \<and> insertFault aliceEnv = None
   \<and> length (rows (snd (initializeDemoDeployments aliceEnv emptyWorld))) = 3
   \<and> map status (rows (snd (initializeDemoDeployments aliceEnv emptyWorld))) =
       [''completed'', ''completed'', ''failed'']
   \<and> rows (snd (initializeDemoDeployments aliceEnv (snd (initializeDemoDeployments aliceEnv emptyWorld))))
       = rows (snd (initializeDemoDeployments aliceEnv emptyWorld))
   \<and> initializeDemoDeployments aliceEnv sharedWorld = (Inr (), sharedWorld)"
proof -
  have h: "authUser aliceEnv = Some ''alice''" "dbAvailable aliceEnv" "selectFault aliceEnv = None"
    "insertFault aliceEnv = None"
    by (simp_all add: authUser_def aliceEnv_def)
  note t = initializeDemoDeployments_seeds_three_once [OF h]
  have 1: "length (rows (snd (initializeDemoDeployments aliceEnv emptyWorld))) = 3
     \<and> map status (rows (snd (initializeDemoDeployments aliceEnv emptyWorld))) =
       [''completed'', ''completed'', ''failed'']"
    using t [where w = emptyWorld] by (simp add: emptyWorld_def)
  have 2: "rows (snd (initializeDemoDeployments aliceEnv (snd (initializeDemoDeployments aliceEnv emptyWorld))))
       = rows (snd (initializeDemoDeployments aliceEnv emptyWorld))"
    using t [where w = emptyWorld] h(1) by blast
  have 3: "initializeDemoDeployments aliceEnv sharedWorld = (Inr (), sharedWorld)"
    using t [where w = sharedWorld] by (simp add: sharedWorld_def alicesDeployment_def)
  show ?thesis using h 1 2 3 by simp
qed

text \<open>
  Without the conditions on the store the statement fails: alice has no row and the
  insert throws; the action returns normally and no row has been inserted.
\<close>

theorem initializeDemoDeployments_insert_fault_seeds_nothing:
  "authUser faultyInsertEnv = Some ''alice''
   \<and> rows emptyWorld = []
   \<and> fst (initializeDemoDeployments faultyInsertEnv emptyWorld) = Inr ()
   \<and> rows (snd (initializeDemoDeployments faultyInsertEnv emptyWorld)) = []"
  by (simp add: initializeDemoDeployments_def faultyInsertEnv_def aliceEnv_def authUser_def
      emptyWorld_def logError_def)

text \<open>
  Claim C10. For an authenticated principal and an available database, when the
  existence check throws, or it finds no row of the principal and the insert throws,
  \<^verbatim>\<open>initializeDemoDeployments\<close> returns normally (the same \<^verbatim>\<open>void\<close> as after a
  seeding), the table is unchanged and the only effect is one console entry with the
  thrown value. In every environment and world, the action throws exactly when there is
  no principal or no database.
\<close>

theorem initializeDemoDeployments_swallows_faults:
  assumes "authUser env = Some u" "dbAvailable env"
      and "selectFault env = Some e
           \<or> (selectFault env = None \<and> filter (\<lambda>r. userId r = u) (rows w) = []
               \<and> insertFault env = Some e)"
  shows "initializeDemoDeployments env w =
           (Inr (), w\<lparr>console := console w @ [ConsoleError ''Failed to initialize demo deployments:'' e]\<rparr>)
       \<and> rows (snd (initializeDemoDeployments env w)) = rows w
       \<and> (\<forall>env' w'. (\<exists>t. fst (initializeDemoDeployments env' w') = Inl t)
                      = (authUser env' = None \<or> \<not> dbAvailable env'))"
proof -
  have a: "initializeDemoDeployments env w =
           (Inr (), w\<lparr>console := console w @ [ConsoleError ''Failed to initialize demo deployments:'' e]\<rparr>)"
    using assms by (auto simp: initializeDemoDeployments_def logError_def)
  have b: "(\<exists>t. fst (initializeDemoDeployments env' w') = Inl t)
                      = (authUser env' = None \<or> \<not> dbAvailable env')" for env' w'
    by (auto simp: initializeDemoDeployments_def split: option.splits)
  show ?thesis using b by (simp add: a)
qed

text \<open>
  The theorem at a select statement that throws and at an insert statement that throws.
\<close>

theorem initializeDemoDeployments_swallows_faults_witness:
  "authUser faultySelectEnv = Some ''alice'' \<and> dbAvailable faultySelectEnv
   \<and> selectFault faultySelectEnv = Some (Error ''connection lost'')
   \<and> initializeDemoDeployments faultySelectEnv emptyWorld =
       (Inr (), emptyWorld\<lparr>console :=
          [ConsoleError ''Failed to initialize demo deployments:'' (Error ''connection lost'')]\<rparr>)
   \<and> authUser faultyInsertEnv = Some ''alice'' \<and> dbAvailable faultyInsertEnv
   \<and> selectFault faultyInsertEnv = None \<and> rows emptyWorld = []
   \<and> insertFault faultyInsertEnv = Some (Error ''connection lost'')
   \<and> initializeDemoDeployments faultyInsertEnv emptyWorld =
       (Inr (), emptyWorld\<lparr>console :=
          [ConsoleError ''Failed to initialize demo deployments:'' (Error ''connection lost'')]\<rparr>)"
proof -
  have h: "authUser faultySelectEnv = Some ''alice''" "dbAvailable faultySelectEnv"
    "selectFault faultySelectEnv = Some (Error ''connection lost'')"
    by (simp_all add: authUser_def faultySelectEnv_def aliceEnv_def)
  have g: "authUser faultyInsertEnv = Some ''alice''" "dbAvailable faultyInsertEnv"
    "selectFault faultyInsertEnv = None" "rows emptyWorld = []"
    "insertFault faultyInsertEnv = Some (Error ''connection lost'')"
    by (simp_all add: authUser_def faultyInsertEnv_def aliceEnv_def emptyWorld_def)
  have 1: "initializeDemoDeployments faultySelectEnv emptyWorld =
       (Inr (), emptyWorld\<lparr>console :=
          [ConsoleError ''Failed to initialize demo deployments:'' (Error ''connection lost'')]\<rparr>)"
    using initializeDemoDeployments_swallows_faults
            [where env = faultySelectEnv and u = "''alice''" and w = emptyWorld
               and e = "Error ''connection lost''"] h
    by (simp add: emptyWorld_def)
  have 2: "initializeDemoDeployments faultyInsertEnv emptyWorld =
       (Inr (), emptyWorld\<lparr>console :=
          [ConsoleError ''Failed to initialize demo deployments:'' (Error ''connection lost'')]\<rparr>)"
    using initializeDemoDeployments_swallows_faults
            [where env = faultyInsertEnv and u = "''alice''" and w = emptyWorld
               and e = "Error ''connection lost''"] g
    by (simp add: emptyWorld_def)
  show ?thesis using h g 1 2 by simp
qed

end
